theory Spec2Isabelle
  imports Main "HOL-Library.AList"
begin

section \<open>JavaScript values, faults and the runtime the module runs on\<close>

text \<open>
  The module \<^verbatim>\<open>src/api/fmp.js\<close> works on untyped JSON data: the environment object
  that carries the API key and the bodies the provider answers with. A value is
  \<^verbatim>\<open>undefined\<close> (what reading a missing property gives), \<^verbatim>\<open>null\<close>, a boolean, a number,
  a string, an array or a plain object. Numbers are IEEE doubles in JavaScript; the module
  does no arithmetic on them, so their type is a parameter \<open>'n\<close> and the few builtins that
  look at a number are fields of the runtime below. A string is a list of characters, one
  \<^typ>\<open>char\<close> standing for one UTF-16 code unit (the unit \<^verbatim>\<open>substring\<close> counts). An object is
  the list of its properties; \<^const>\<open>map_of\<close> reads it.
\<close>

datatype 'n jsval =
    JUndefined
  | JNull
  | JBool bool
  | JNum 'n
  | JStr string
  | JArr "'n jsval list"
  | JObj "(string \<times> 'n jsval) list"

text \<open>
  A thrown value. Everything the module can catch is an \<^verbatim>\<open>Error\<close> object: the
  \<^verbatim>\<open>TypeError\<close> of a property read on \<^verbatim>\<open>null\<close> or \<^verbatim>\<open>undefined\<close>, of calling a method that
  is not there or of converting an object that has no primitive value, the \<^verbatim>\<open>RangeError\<close> of
  \<^verbatim>\<open>toISOString\<close> on an invalid date, the rejection of \<^verbatim>\<open>fetch\<close> and the rejection of
  \<^verbatim>\<open>response.json()\<close>. The handlers read its \<^verbatim>\<open>message\<close>.
\<close>

datatype js_error = JsError (err_name: string) (message: string)

text \<open>What the console and the network see, in the order it happens.\<close>

datatype event =
    Fetch string
  | ConsoleWarn "string list"
  | ConsoleError "string list"

text \<open>
  The \<^verbatim>\<open>Response\<close> of \<^verbatim>\<open>fetch\<close>: the module reads \<^verbatim>\<open>ok\<close> and \<^verbatim>\<open>status\<close> and awaits
  \<^verbatim>\<open>json()\<close>, which rejects when the body is not JSON.
\<close>

record 'n response =
  ok :: bool
  status :: nat
  json :: "js_error + 'n jsval"

datatype 'n fetch_outcome =
    Rejected js_error
  | Resolved "'n response"

text \<open>
  The collaborators the module does not implement: the HTTP transport (\<open>fetch\<close>, the
  outcome of a request by its URL), the clock (\<open>now\<close>, the time value of \<^verbatim>\<open>new Date()\<close> in
  milliseconds since the epoch) and the builtins on numbers and date strings:
  \<open>numTruthy\<close> is \<^verbatim>\<open>ToBoolean\<close> on a number, \<open>numToString\<close> is \<^verbatim>\<open>ToString\<close> on a number,
  \<open>timeClip\<close> is the time value of \<^verbatim>\<open>new Date(n)\<close> for a number and \<open>dateParse\<close> is
  \<^verbatim>\<open>Date.parse\<close>; the last two give \<open>None\<close> for \<^verbatim>\<open>NaN\<close>, the invalid date.
\<close>

record 'n runtime =
  fetch :: "string \<Rightarrow> 'n fetch_outcome"
  now :: int
  numTruthy :: "'n \<Rightarrow> bool"
  numToString :: "'n \<Rightarrow> string"
  timeClip :: "'n \<Rightarrow> int option"
  dateParse :: "string \<Rightarrow> int option"

subsection \<open>Property reads, truthiness, conversion to string\<close>

text \<open>
  \<^verbatim>\<open>v[k]\<close> for a value that is neither \<^verbatim>\<open>null\<close> nor \<^verbatim>\<open>undefined\<close>. The module reads
  only the names \<^verbatim>\<open>FMP_API_KEY\<close>, \<^verbatim>\<open>symbol\<close>, \<^verbatim>\<open>price\<close>, \<^verbatim>\<open>change\<close>, \<^verbatim>\<open>changesPercentage\<close>,
  \<^verbatim>\<open>dayLow\<close>, \<^verbatim>\<open>dayHigh\<close>, \<^verbatim>\<open>volume\<close>, \<^verbatim>\<open>timestamp\<close>, \<^verbatim>\<open>title\<close>, \<^verbatim>\<open>site\<close>, \<^verbatim>\<open>publishedDate\<close>,
  \<^verbatim>\<open>url\<close> and \<^verbatim>\<open>text\<close>; no prototype of a primitive, an array or a plain object has one of
  them, so on anything but an object that holds the name the read gives \<^verbatim>\<open>undefined\<close>.
\<close>

definition read_prop :: "'n jsval \<Rightarrow> string \<Rightarrow> 'n jsval" where
  "read_prop v k =
     (case v of
        JObj kvs \<Rightarrow> (case map_of kvs k of Some x \<Rightarrow> x | None \<Rightarrow> JUndefined)
      | _ \<Rightarrow> JUndefined)"

definition nullish :: "'n jsval \<Rightarrow> bool" where
  "nullish v = (case v of JUndefined \<Rightarrow> True | JNull \<Rightarrow> True | _ \<Rightarrow> False)"

text \<open>
  \<^verbatim>\<open>v.k\<close>: a \<^verbatim>\<open>TypeError\<close> on \<^verbatim>\<open>null\<close> and \<^verbatim>\<open>undefined\<close>, with the message V8 gives it
  (the module runs on Cloudflare Workers); the name read is in single quotes.
\<close>

definition cannot_read :: "'n jsval \<Rightarrow> string \<Rightarrow> string" where
  "cannot_read v k =
     ''Cannot read properties of '' @ (case v of JNull \<Rightarrow> ''null'' | _ \<Rightarrow> ''undefined'') @
     '' (reading '' @ CHR 0x27 # k @ CHR 0x27 # '')''"

definition get_prop :: "'n jsval \<Rightarrow> string \<Rightarrow> js_error + 'n jsval" where
  "get_prop v k =
     (if nullish v then Inl (JsError ''TypeError'' (cannot_read v k))
      else Inr (read_prop v k))"

definition ToBoolean :: "'n runtime \<Rightarrow> 'n jsval \<Rightarrow> bool" where
  "ToBoolean rt v =
     (case v of
        JUndefined \<Rightarrow> False
      | JNull \<Rightarrow> False
      | JBool b \<Rightarrow> b
      | JNum n \<Rightarrow> numTruthy rt n
      | JStr s \<Rightarrow> s \<noteq> []
      | JArr _ \<Rightarrow> True
      | JObj _ \<Rightarrow> True)"

text \<open>\<^verbatim>\<open>Array.prototype.join\<close> on strings.\<close>

fun join :: "string \<Rightarrow> string list \<Rightarrow> string" where
  "join sep [] = []"
| "join sep [s] = s"
| "join sep (s # t # ss) = s @ sep @ join sep (t # ss)"

text \<open>
  \<^verbatim>\<open>ToString\<close>, as a template literal applies it. An array joins the strings of its
  elements with a comma, \<^verbatim>\<open>null\<close> and \<^verbatim>\<open>undefined\<close> elements as the empty string, and the
  first element that throws ends it. A plain object is \<^verbatim>\<open>[object Object]\<close> by the method it
  inherits; when it has a property \<^verbatim>\<open>toString\<close> of its own, that value (data, never a
  function) hides the inherited method, \<^verbatim>\<open>valueOf\<close> gives no primitive either, and the
  conversion throws a \<^verbatim>\<open>TypeError\<close>.
\<close>

fun ToString :: "'n runtime \<Rightarrow> 'n jsval \<Rightarrow> js_error + string"
  and ToString_elements :: "'n runtime \<Rightarrow> 'n jsval list \<Rightarrow> js_error + string list" where
  "ToString rt JUndefined = Inr ''undefined''"
| "ToString rt JNull = Inr ''null''"
| "ToString rt (JBool b) = Inr (if b then ''true'' else ''false'')"
| "ToString rt (JNum n) = Inr (numToString rt n)"
| "ToString rt (JStr s) = Inr s"
| "ToString rt (JArr xs) =
     (case ToString_elements rt xs of
        Inl e \<Rightarrow> Inl e
      | Inr ss \<Rightarrow> Inr (join '','' ss))"
| "ToString rt (JObj kvs) =
     (case map_of kvs ''toString'' of
        Some m \<Rightarrow> Inl (JsError ''TypeError'' ''Cannot convert object to primitive value'')
      | None \<Rightarrow> Inr ''[object Object]'')"
| "ToString_elements rt [] = Inr []"
| "ToString_elements rt (x # xs) =
     (case (if nullish x then Inr [] else ToString rt x) of
        Inl e \<Rightarrow> Inl e
      | Inr s \<Rightarrow>
          (case ToString_elements rt xs of
             Inl e \<Rightarrow> Inl e
           | Inr ss \<Rightarrow> Inr (s # ss)))"

text \<open>Decimal digits of a natural number, as a template literal prints \<^verbatim>\<open>response.status\<close>.\<close>

definition digit :: "nat \<Rightarrow> char" where
  "digit d = ''0123456789'' ! d"

fun show_nat :: "nat \<Rightarrow> string" where
  "show_nat n =
     (if n < 10 then [digit n]
      else show_nat (n div 10) @ [digit (n mod 10)])"

declare show_nat.simps [simp del]

subsection \<open>Dates\<close>

text \<open>
  \<^verbatim>\<open>new Date(v)\<close> for one argument: its time value, \<open>None\<close> for the invalid date.
  \<^verbatim>\<open>undefined\<close> is \<^verbatim>\<open>NaN\<close>; \<^verbatim>\<open>null\<close> and the booleans convert to the numbers 0 and 1; a
  string is parsed; an array or object converts to a primitive first, which is its string
  or the \<^verbatim>\<open>TypeError\<close> of that conversion.
\<close>

definition new_Date :: "'n runtime \<Rightarrow> 'n jsval \<Rightarrow> js_error + int option" where
  "new_Date rt v =
     (case v of
        JUndefined \<Rightarrow> Inr None
      | JNull \<Rightarrow> Inr (Some 0)
      | JBool b \<Rightarrow> Inr (Some (if b then 1 else 0))
      | JNum n \<Rightarrow> Inr (timeClip rt n)
      | JStr s \<Rightarrow> Inr (dateParse rt s)
      | JArr xs \<Rightarrow> (case ToString rt v of Inl e \<Rightarrow> Inl e | Inr s \<Rightarrow> Inr (dateParse rt s))
      | JObj kvs \<Rightarrow> (case ToString rt v of Inl e \<Rightarrow> Inl e | Inr s \<Rightarrow> Inr (dateParse rt s)))"

text \<open>Zero-padded decimal of width \<open>w\<close>.\<close>

definition pad :: "nat \<Rightarrow> nat \<Rightarrow> string" where
  "pad w n = replicate (w - length (show_nat n)) (CHR ''0'') @ show_nat n"

text \<open>Year, month and day of a day number counted from 1970-01-01 (proleptic Gregorian).\<close>

definition civil :: "int \<Rightarrow> int \<times> nat \<times> nat" where
  "civil day =
     (let z = day + 719468;
          era = z div 146097;
          doe = z - era * 146097;
          yoe = (doe - doe div 1460 + doe div 36524 - doe div 146096) div 365;
          doy = doe - (365 * yoe + yoe div 4 - yoe div 100);
          mp = (5 * doy + 2) div 153;
          d = doy - (153 * mp + 2) div 5 + 1;
          m = (if mp < 10 then mp + 3 else mp - 9);
          y = yoe + era * 400 + (if m \<le> 2 then 1 else 0)
      in (y, nat m, nat d))"

text \<open>The string of \<^verbatim>\<open>toISOString\<close> for a time value: UTC, milliseconds, \<^verbatim>\<open>Z\<close>.\<close>

definition isoFormat :: "int \<Rightarrow> string" where
  "isoFormat t =
     (let (y, m, d) = civil (t div 86400000);
          ms = nat (t mod 86400000);
          year = (if 0 \<le> y \<and> y \<le> 9999 then pad 4 (nat y)
                  else (if y < 0 then ''-'' else ''+'') @ pad 6 (nat \<bar>y\<bar>))
      in year @ ''-'' @ pad 2 m @ ''-'' @ pad 2 d @ ''T'' @
         pad 2 (ms div 3600000) @ '':'' @ pad 2 (ms div 60000 mod 60) @ '':'' @
         pad 2 (ms div 1000 mod 60) @ ''.'' @ pad 3 (ms mod 1000) @ ''Z'')"

text \<open>\<^verbatim>\<open>toISOString()\<close>: a \<^verbatim>\<open>RangeError\<close> on the invalid date.\<close>

definition toISOString :: "int option \<Rightarrow> js_error + string" where
  "toISOString d =
     (case d of
        None \<Rightarrow> Inl (JsError ''RangeError'' ''Invalid time value'')
      | Some t \<Rightarrow> Inr (isoFormat t))"

section \<open>The module\<close>

definition BASE_URL :: string where
  "BASE_URL = ''https://financialmodelingprep.com/api/v3/''"

definition INDICES :: "(string \<times> string) list" where
  "INDICES =
     [(''SP500'', ''^GSPC''),
      (''NASDAQ'', ''^IXIC''),
      (''DOW'', ''^DJI''),
      (''VIX'', ''^VIX''),
      (''US10Y'', ''^TNX'')]"

text \<open>
  \<^verbatim>\<open>Object.keys(object).find(key => object[key] === value)\<close>: the first key, in the
  object's order, whose value is strictly equal to \<open>value\<close>; \<open>None\<close> is \<^verbatim>\<open>undefined\<close>.
  The values of \<open>object\<close> are strings, and \<^verbatim>\<open>===\<close> holds between a string and a value only
  when the value is that string.
\<close>

definition getKeyByValue :: "(string \<times> string) list \<Rightarrow> 'n jsval \<Rightarrow> string option" where
  "getKeyByValue object v =
     find (\<lambda>key. (case map_of object key of Some s \<Rightarrow> JStr s = v | None \<Rightarrow> JUndefined = v))
       (map fst object)"

subsection \<open>The results\<close>

text \<open>
  The object \<^verbatim>\<open>fetchIndexQuotes\<close> builds for one index. The fields copied from the
  provider hold whatever the provider sent (\<^verbatim>\<open>undefined\<close> when it sent nothing).
\<close>

record 'n quote_record =
  symbol :: "'n jsval"
  price :: "'n jsval"
  change :: "'n jsval"
  changePercent :: "'n jsval"
  dayLow :: "'n jsval"
  dayHigh :: "'n jsval"
  volume :: "'n jsval"
  timestamp :: string

text \<open>
  The \<^verbatim>\<open>quotes\<close> object: its properties in insertion order. \<^verbatim>\<open>quotes[key] = v\<close> is
  \<^const>\<open>AList.update\<close>: a new key goes to the end, a known key keeps its place and takes
  the new value.
\<close>

type_synonym 'n quotes = "(string \<times> 'n quote_record) list"

record 'n news_item =
  title :: "'n jsval"
  site :: "'n jsval"
  publishedAt :: "'n jsval"
  url :: "'n jsval"
  summary :: string

text \<open>The object \<^verbatim>\<open>fetchMarketData\<close> returns; \<open>None\<close> in \<open>news\<close> is \<^verbatim>\<open>null\<close>.\<close>

record 'n market_data =
  indices :: "'n quotes"
  news :: "'n news_item list option"
  timestamp :: string

subsection \<open>\<^verbatim>\<open>fetchIndexQuotes\<close>\<close>

text \<open>
  The URL of lines 65 to 67, or the error the template literal throws when the key does
  not convert to a string.
\<close>

definition quote_url :: "'n runtime \<Rightarrow> 'n jsval \<Rightarrow> js_error + string" where
  "quote_url rt apiKey =
     (case ToString rt apiKey of
        Inl e \<Rightarrow> Inl e
      | Inr k \<Rightarrow> Inr (BASE_URL @ ''quote/'' @ join '','' (map snd INDICES) @ ''?apikey='' @ k))"

text \<open>
  The callback of \<^verbatim>\<open>data.forEach\<close> (lines 82 to 98) on one element, given the
  \<^verbatim>\<open>quotes\<close> built so far. \<^verbatim>\<open>quote.symbol\<close> throws on a \<^verbatim>\<open>null\<close> element; once it has
  not, the other reads cannot. \<^verbatim>\<open>if (key)\<close> fails for \<^verbatim>\<open>undefined\<close> and for the empty
  string. \<^verbatim>\<open>new Date\<close> throws on a timestamp that has no primitive value and
  \<^verbatim>\<open>toISOString\<close> on an invalid date, both before the assignment.
\<close>

definition quote_callback ::
  "'n runtime \<Rightarrow> 'n jsval \<Rightarrow> 'n quotes \<Rightarrow> js_error + 'n quotes" where
  "quote_callback rt quote quotes =
     (case get_prop quote ''symbol'' of
        Inl e \<Rightarrow> Inl e
      | Inr symb \<Rightarrow>
          (case getKeyByValue INDICES symb of
             None \<Rightarrow> Inr quotes
           | Some key \<Rightarrow>
               if key = [] then Inr quotes
               else
                 (case new_Date rt (read_prop quote ''timestamp'') of
                    Inl e \<Rightarrow> Inl e
                  | Inr d \<Rightarrow>
                      (case toISOString d of
                         Inl e \<Rightarrow> Inl e
                       | Inr ts \<Rightarrow>
                           Inr (AList.update key
                                 \<lparr> symbol = symb,
                                   price = read_prop quote ''price'',
                                   change = read_prop quote ''change'',
                                   changePercent = read_prop quote ''changesPercentage'',
                                   dayLow = read_prop quote ''dayLow'',
                                   dayHigh = read_prop quote ''dayHigh'',
                                   volume = read_prop quote ''volume'',
                                   quote_record.timestamp = ts \<rparr>
                                 quotes)))))"

text \<open>\<^verbatim>\<open>data.forEach\<close>: the elements in order; a throw in the callback ends the loop.\<close>

fun forEach_quote :: "'n runtime \<Rightarrow> 'n jsval list \<Rightarrow> 'n quotes \<Rightarrow> js_error + 'n quotes" where
  "forEach_quote rt [] quotes = Inr quotes"
| "forEach_quote rt (quote # rest) quotes =
     (case quote_callback rt quote quotes of
        Inl e \<Rightarrow> Inl e
      | Inr quotes' \<Rightarrow> forEach_quote rt rest quotes')"

text \<open>
  Lines 76 to 100, what the function does with the parsed body: \<^verbatim>\<open>null\<close> (\<open>None\<close>)
  when it is not an array or is empty, else the \<^verbatim>\<open>quotes\<close> object filled by the loop.
\<close>

definition quotes_of_data :: "'n runtime \<Rightarrow> 'n jsval \<Rightarrow> js_error + 'n quotes option" where
  "quotes_of_data rt data =
     (case data of
        JArr xs \<Rightarrow>
          if xs = [] then Inr None
          else (case forEach_quote rt xs [] of
                  Inl e \<Rightarrow> Inl e
                | Inr quotes \<Rightarrow> Inr (Some quotes))
      | _ \<Rightarrow> Inr None)"

text \<open>
  The body of the \<^verbatim>\<open>try\<close> (lines 64 to 100): the result or the thrown error, and what
  happened on the way. When the URL cannot be built, nothing is requested.
\<close>

definition fetchIndexQuotes_try ::
  "'n runtime \<Rightarrow> 'n jsval \<Rightarrow> (js_error + 'n quotes option) \<times> event list" where
  "fetchIndexQuotes_try rt apiKey =
     (case quote_url rt apiKey of
        Inl e \<Rightarrow> (Inl e, [])
      | Inr u \<Rightarrow>
          (case fetch rt u of
             Rejected e \<Rightarrow> (Inl e, [Fetch u])
           | Resolved response \<Rightarrow>
               if \<not> ok response
               then (Inr None,
                     [Fetch u, ConsoleWarn [''FMP quote API returned '' @ show_nat (status response)]])
               else (case json response of
                       Inl e \<Rightarrow> (Inl e, [Fetch u])
                     | Inr data \<Rightarrow> (quotes_of_data rt data, [Fetch u]))))"

text \<open>
  The function: the \<^verbatim>\<open>catch\<close> (lines 102 to 105) turns a thrown error into a warning and
  \<^verbatim>\<open>null\<close>. The result is a sum as for every function here: \<open>Inl\<close> would be an error
  that leaves the function.
\<close>

definition fetchIndexQuotes ::
  "'n runtime \<Rightarrow> 'n jsval \<Rightarrow> (js_error + 'n quotes option) \<times> event list" where
  "fetchIndexQuotes rt apiKey =
     (case fetchIndexQuotes_try rt apiKey of
        (Inl error, evs) \<Rightarrow>
          (Inr None, evs @ [ConsoleWarn [''FMP index quotes fetch failed:'', message error]])
      | (Inr r, evs) \<Rightarrow> (Inr r, evs))"

subsection \<open>\<^verbatim>\<open>fetchMarketNews\<close>\<close>

definition news_url :: "'n runtime \<Rightarrow> 'n jsval \<Rightarrow> js_error + string" where
  "news_url rt apiKey =
     (case ToString rt apiKey of
        Inl e \<Rightarrow> Inl e
      | Inr k \<Rightarrow> Inr (BASE_URL @ ''stock_news?limit=10&apikey='' @ k))"

text \<open>
  The callback of \<^verbatim>\<open>map\<close> (lines 129 to 135) on one article. \<^verbatim>\<open>article.title\<close> throws on
  a \<^verbatim>\<open>null\<close> element. \<^verbatim>\<open>article.text ? ... : ''\<close> tests truthiness; a truthy text that is
  not a string has no \<^verbatim>\<open>substring\<close>, and the call throws. \<^verbatim>\<open>substring(0, 200)\<close> is the first
  200 code units.
\<close>

definition article_callback :: "'n runtime \<Rightarrow> 'n jsval \<Rightarrow> js_error + 'n news_item" where
  "article_callback rt article =
     (case get_prop article ''title'' of
        Inl e \<Rightarrow> Inl e
      | Inr t \<Rightarrow>
          (let text = read_prop article ''text'' in
           case (if ToBoolean rt text
                 then (case text of
                         JStr s \<Rightarrow> Inr (take 200 s @ ''...'')
                       | _ \<Rightarrow> Inl (JsError ''TypeError'' ''article.text.substring is not a function''))
                 else Inr []) of
             Inl e \<Rightarrow> Inl e
           | Inr sm \<Rightarrow>
               Inr \<lparr> title = t,
                     site = read_prop article ''site'',
                     publishedAt = read_prop article ''publishedDate'',
                     url = read_prop article ''url'',
                     summary = sm \<rparr>))"

text \<open>\<^verbatim>\<open>Array.prototype.map\<close> with this callback: in order; a throw ends it.\<close>

fun map_article :: "'n runtime \<Rightarrow> 'n jsval list \<Rightarrow> js_error + 'n news_item list" where
  "map_article rt [] = Inr []"
| "map_article rt (article # rest) =
     (case article_callback rt article of
        Inl e \<Rightarrow> Inl e
      | Inr item \<Rightarrow>
          (case map_article rt rest of
             Inl e \<Rightarrow> Inl e
           | Inr items \<Rightarrow> Inr (item # items)))"

text \<open>Lines 124 to 135: \<^verbatim>\<open>data.slice(0, 5)\<close> is \<^term>\<open>take 5\<close>.\<close>

definition news_of_data :: "'n runtime \<Rightarrow> 'n jsval \<Rightarrow> js_error + 'n news_item list option" where
  "news_of_data rt data =
     (case data of
        JArr xs \<Rightarrow>
          if xs = [] then Inr None
          else (case map_article rt (take 5 xs) of
                  Inl e \<Rightarrow> Inl e
                | Inr items \<Rightarrow> Inr (Some items))
      | _ \<Rightarrow> Inr None)"

definition fetchMarketNews_try ::
  "'n runtime \<Rightarrow> 'n jsval \<Rightarrow> (js_error + 'n news_item list option) \<times> event list" where
  "fetchMarketNews_try rt apiKey =
     (case news_url rt apiKey of
        Inl e \<Rightarrow> (Inl e, [])
      | Inr u \<Rightarrow>
          (case fetch rt u of
             Rejected e \<Rightarrow> (Inl e, [Fetch u])
           | Resolved response \<Rightarrow>
               if \<not> ok response
               then (Inr None,
                     [Fetch u, ConsoleWarn [''FMP news API returned '' @ show_nat (status response)]])
               else (case json response of
                       Inl e \<Rightarrow> (Inl e, [Fetch u])
                     | Inr data \<Rightarrow> (news_of_data rt data, [Fetch u]))))"

definition fetchMarketNews ::
  "'n runtime \<Rightarrow> 'n jsval \<Rightarrow> (js_error + 'n news_item list option) \<times> event list" where
  "fetchMarketNews rt apiKey =
     (case fetchMarketNews_try rt apiKey of
        (Inl error, evs) \<Rightarrow>
          (Inr None, evs @ [ConsoleWarn [''FMP market news fetch failed:'', message error]])
      | (Inr r, evs) \<Rightarrow> (Inr r, evs))"

subsection \<open>\<^verbatim>\<open>fetchMarketData\<close>\<close>

text \<open>
  The body of the \<^verbatim>\<open>try\<close> (lines 34 to 51). \<^verbatim>\<open>env.FMP_API_KEY\<close> throws when \<^verbatim>\<open>env\<close> is
  \<^verbatim>\<open>null\<close> or \<^verbatim>\<open>undefined\<close>. An error that left one of the two helpers would leave this
  body at the \<^verbatim>\<open>await\<close>. \<^verbatim>\<open>if (!quotes)\<close> holds for \<^verbatim>\<open>null\<close> only, an object being truthy
  even when it has no property. \<^verbatim>\<open>new Date()\<close> is the clock.
\<close>

definition fetchMarketData_try ::
  "'n runtime \<Rightarrow> 'n jsval \<Rightarrow> (js_error + 'n market_data option) \<times> event list" where
  "fetchMarketData_try rt env =
     (case get_prop env ''FMP_API_KEY'' of
        Inl e \<Rightarrow> (Inl e, [])
      | Inr apiKey \<Rightarrow>
          if \<not> ToBoolean rt apiKey
          then (Inr None, [ConsoleWarn [''FMP_API_KEY not configured'']])
          else
            (case fetchIndexQuotes rt apiKey of
               (Inl e, evs) \<Rightarrow> (Inl e, evs)
             | (Inr None, evs) \<Rightarrow> (Inr None, evs)
             | (Inr (Some quotes), evs) \<Rightarrow>
                 (case fetchMarketNews rt apiKey of
                    (Inl e, evs') \<Rightarrow> (Inl e, evs @ evs')
                  | (Inr marketNews, evs') \<Rightarrow>
                      (case toISOString (Some (now rt)) of
                         Inl e \<Rightarrow> (Inl e, evs @ evs')
                       | Inr ts \<Rightarrow>
                           (Inr (Some \<lparr> indices = quotes, news = marketNews, timestamp = ts \<rparr>),
                            evs @ evs')))))"

text \<open>
  The exported function: the \<^verbatim>\<open>catch\<close> (lines 53 to 56) logs an error and returns
  \<^verbatim>\<open>null\<close>. \<open>Inl\<close> in the result would be a rejected promise, an error the caller sees.
\<close>

definition fetchMarketData ::
  "'n runtime \<Rightarrow> 'n jsval \<Rightarrow> (js_error + 'n market_data option) \<times> event list" where
  "fetchMarketData rt env =
     (case fetchMarketData_try rt env of
        (Inl error, evs) \<Rightarrow> (Inr None, evs @ [ConsoleError [''FMP fetch failed:'', message error]])
      | (Inr r, evs) \<Rightarrow> (Inr r, evs))"

text \<open>The URLs requested, in order.\<close>

fun fetched :: "event list \<Rightarrow> string list" where
  "fetched [] = []"
| "fetched (Fetch u # evs) = u # fetched evs"
| "fetched (ConsoleWarn a # evs) = fetched evs"
| "fetched (ConsoleError a # evs) = fetched evs"

text \<open>What a phase requests: its URL, or nothing when the URL could not be built.\<close>

definition requested :: "js_error + string \<Rightarrow> string list" where
  "requested u = (case u of Inl e \<Rightarrow> [] | Inr v \<Rightarrow> [v])"

section \<open>Conditions on what the provider answers\<close>

text \<open>
  The parsed body of a request that resolved with a 2xx status and a JSON body; there is
  none when the URL could not be built.
\<close>

definition body_of :: "'n fetch_outcome \<Rightarrow> 'n jsval option" where
  "body_of out =
     (case out of
        Rejected e \<Rightarrow> None
      | Resolved response \<Rightarrow>
          if ok response then (case json response of Inl e \<Rightarrow> None | Inr data \<Rightarrow> Some data)
          else None)"

definition quote_body :: "'n runtime \<Rightarrow> 'n jsval \<Rightarrow> 'n jsval option" where
  "quote_body rt apiKey =
     (case quote_url rt apiKey of Inl e \<Rightarrow> None | Inr u \<Rightarrow> body_of (fetch rt u))"

definition news_body :: "'n runtime \<Rightarrow> 'n jsval \<Rightarrow> 'n jsval option" where
  "news_body rt apiKey =
     (case news_url rt apiKey of Inl e \<Rightarrow> None | Inr u \<Rightarrow> body_of (fetch rt u))"

text \<open>The identifier a raw quote record's ticker stands for, if any.\<close>

definition matched_key :: "'n jsval \<Rightarrow> string option" where
  "matched_key quote = getKeyByValue INDICES (read_prop quote ''symbol'')"

text \<open>
  The time value of a raw record's timestamp, when \<^verbatim>\<open>new Date\<close> does not throw on it and
  the date is valid: what \<^verbatim>\<open>toISOString\<close> can print.
\<close>

definition timestamp_value :: "'n runtime \<Rightarrow> 'n jsval \<Rightarrow> int option" where
  "timestamp_value rt quote =
     (case new_Date rt (read_prop quote ''timestamp'') of Inl e \<Rightarrow> None | Inr d \<Rightarrow> d)"

text \<open>The raw record has a known ticker and a timestamp that does not convert.\<close>

definition timestamp_fails :: "'n runtime \<Rightarrow> 'n jsval \<Rightarrow> bool" where
  "timestamp_fails rt quote = (matched_key quote \<noteq> None \<and> timestamp_value rt quote = None)"

text \<open>
  The raw record is one the loop's callback throws on: a \<^verbatim>\<open>null\<close> element, or a record
  whose timestamp fails.
\<close>

definition quote_faults :: "'n runtime \<Rightarrow> 'n jsval \<Rightarrow> bool" where
  "quote_faults rt quote = (nullish quote \<or> timestamp_fails rt quote)"

text \<open>The entry the callback stores for a raw record whose timestamp converts to \<open>ts\<close>.\<close>

definition quote_entry :: "'n jsval \<Rightarrow> string \<Rightarrow> 'n quote_record" where
  "quote_entry quote ts =
     \<lparr> symbol = read_prop quote ''symbol'',
       price = read_prop quote ''price'',
       change = read_prop quote ''change'',
       changePercent = read_prop quote ''changesPercentage'',
       dayLow = read_prop quote ''dayLow'',
       dayHigh = read_prop quote ''dayHigh'',
       volume = read_prop quote ''volume'',
       quote_record.timestamp = ts \<rparr>"

definition is_string :: "'n jsval \<Rightarrow> bool" where
  "is_string v = (case v of JStr s \<Rightarrow> True | _ \<Rightarrow> False)"

text \<open>
  The raw article is one the \<^verbatim>\<open>map\<close> callback throws on: a \<^verbatim>\<open>null\<close> element, or an
  article whose text is truthy and not a string.
\<close>

definition article_faults :: "'n runtime \<Rightarrow> 'n jsval \<Rightarrow> bool" where
  "article_faults rt article =
     (nullish article \<or>
      (ToBoolean rt (read_prop article ''text'') \<and> \<not> is_string (read_prop article ''text'')))"

text \<open>
  The quote phase fails: the URL cannot be built, the request is rejected, the status is
  not 2xx, the body is not JSON, is not an array or is empty, or the loop over it throws.
\<close>

definition quote_phase_fails :: "'n runtime \<Rightarrow> 'n jsval \<Rightarrow> bool" where
  "quote_phase_fails rt apiKey =
     (case quote_url rt apiKey of
        Inl e \<Rightarrow> True
      | Inr u \<Rightarrow>
          (case fetch rt u of
             Rejected e \<Rightarrow> True
           | Resolved response \<Rightarrow>
               \<not> ok response \<or>
               (case json response of
                  Inl e \<Rightarrow> True
                | Inr data \<Rightarrow>
                    (case data of
                       JArr xs \<Rightarrow> xs = [] \<or> isl (forEach_quote rt xs [])
                     | _ \<Rightarrow> True))))"

text \<open>The news phase fails, in the same ways.\<close>

definition news_phase_fails :: "'n runtime \<Rightarrow> 'n jsval \<Rightarrow> bool" where
  "news_phase_fails rt apiKey =
     (case news_url rt apiKey of
        Inl e \<Rightarrow> True
      | Inr u \<Rightarrow>
          (case fetch rt u of
             Rejected e \<Rightarrow> True
           | Resolved response \<Rightarrow>
               \<not> ok response \<or>
               (case json response of
                  Inl e \<Rightarrow> True
                | Inr data \<Rightarrow>
                    (case data of
                       JArr xs \<Rightarrow> xs = [] \<or> isl (map_article rt (take 5 xs))
                     | _ \<Rightarrow> True))))"

text \<open>The API key the environment supplies: a truthy \<^verbatim>\<open>FMP_API_KEY\<close>.\<close>

definition supplied_key :: "'n runtime \<Rightarrow> 'n jsval \<Rightarrow> 'n jsval option" where
  "supplied_key rt env =
     (case get_prop env ''FMP_API_KEY'' of
        Inl e \<Rightarrow> None
      | Inr apiKey \<Rightarrow> if ToBoolean rt apiKey then Some apiKey else None)"

text \<open>\<^verbatim>\<open>Array.isArray\<close>.\<close>

definition is_array :: "'n jsval \<Rightarrow> bool" where
  "is_array v = (case v of JArr xs \<Rightarrow> True | _ \<Rightarrow> False)"

text \<open>No API key is supplied: the environment has no truthy \<^verbatim>\<open>FMP_API_KEY\<close>.\<close>

definition no_api_key :: "'n runtime \<Rightarrow> 'n jsval \<Rightarrow> bool" where
  "no_api_key rt env =
     (case get_prop env ''FMP_API_KEY'' of
        Inl e \<Rightarrow> False
      | Inr apiKey \<Rightarrow> \<not> ToBoolean rt apiKey)"

section \<open>A runtime for examples\<close>

text \<open>
  Numbers are integers. \<^verbatim>\<open>new Date(n)\<close> is valid within 8.64e15 milliseconds of the
  epoch. No string is recognised as a date, and the examples pass none that is one. The
  transport answers the quote request with one outcome and every other request with
  another.
\<close>

definition show_int :: "int \<Rightarrow> string" where
  "show_int i = (if i < 0 then ''-'' @ show_nat (nat (- i)) else show_nat (nat i))"

definition transport :: "int fetch_outcome \<Rightarrow> int fetch_outcome \<Rightarrow> string \<Rightarrow> int fetch_outcome" where
  "transport quoteOutcome newsOutcome u =
     (if take 46 u = BASE_URL @ ''quote'' then quoteOutcome else newsOutcome)"

definition example_runtime :: "int fetch_outcome \<Rightarrow> int fetch_outcome \<Rightarrow> int runtime" where
  "example_runtime quoteOutcome newsOutcome =
     \<lparr> fetch = transport quoteOutcome newsOutcome,
       now = 1700000000000,
       numTruthy = (\<lambda>n. n \<noteq> 0),
       numToString = show_int,
       timeClip = (\<lambda>n. if \<bar>n\<bar> \<le> 8640000000000000 then Some n else None),
       dateParse = (\<lambda>s. None) \<rparr>"

definition answer :: "int jsval \<Rightarrow> int fetch_outcome" where
  "answer data = Resolved \<lparr> ok = True, status = 200, json = Inr data \<rparr>"

definition env_with_key :: "int jsval" where
  "env_with_key = JObj [(''FMP_API_KEY'', JStr ''demo'')]"

text \<open>
  The quote record of the specification's scenario, without its fractional
  \<^verbatim>\<open>changesPercentage\<close> (the numbers of the examples are integers), and a record for another
  index.
\<close>

definition gspc :: "int jsval" where
  "gspc =
     JObj [(''symbol'', JStr ''^GSPC''), (''price'', JNum 5000), (''change'', JNum 10),
           (''dayLow'', JNum 4950), (''dayHigh'', JNum 5010), (''volume'', JNum 1000000),
           (''timestamp'', JNum 1700000000)]"

definition ixic :: "int jsval" where
  "ixic = JObj [(''symbol'', JStr ''^IXIC''), (''price'', JNum 16000), (''timestamp'', JNum 1700000000)]"

definition sample_article :: "string \<Rightarrow> string \<Rightarrow> int jsval" where
  "sample_article t body = JObj [(''title'', JStr t), (''site'', JStr ''example.com''), (''text'', JStr body)]"

section \<open>How the callbacks, the iterations and the phases behave\<close>

subsection \<open>The loop over the quote records\<close>

lemma getKeyByValue_INDICES_nonempty:
  "getKeyByValue INDICES v = Some k \<Longrightarrow> k \<noteq> []"
  by (auto simp: getKeyByValue_def INDICES_def split: if_splits)

lemma quote_callback_nullish:
  "nullish q \<Longrightarrow> isl (quote_callback rt q acc)"
  by (simp add: quote_callback_def get_prop_def)

lemma quote_callback_unmatched:
  "\<not> nullish q \<Longrightarrow> matched_key q = None \<Longrightarrow> quote_callback rt q acc = Inr acc"
  by (simp add: quote_callback_def get_prop_def matched_key_def)

lemma quote_callback_invalid:
  "\<not> nullish q \<Longrightarrow> matched_key q = Some k \<Longrightarrow>
   timestamp_value rt q = None \<Longrightarrow> isl (quote_callback rt q acc)"
  using getKeyByValue_INDICES_nonempty [of "read_prop q ''symbol''" k]
  by (auto simp: quote_callback_def get_prop_def matched_key_def toISOString_def
      timestamp_value_def split: sum.splits option.splits)

lemma quote_callback_stores:
  "\<not> nullish q \<Longrightarrow> matched_key q = Some k \<Longrightarrow>
   timestamp_value rt q = Some t \<Longrightarrow>
   quote_callback rt q acc = Inr (AList.update k (quote_entry q (isoFormat t)) acc)"
  using getKeyByValue_INDICES_nonempty [of "read_prop q ''symbol''" k]
  by (auto simp: quote_callback_def get_prop_def matched_key_def toISOString_def quote_entry_def
      timestamp_value_def split: sum.splits option.splits)

lemma quote_callback_isl: "isl (quote_callback rt q acc) = quote_faults rt q"
proof (cases "nullish q")
  case True
  then show ?thesis by (simp add: quote_callback_nullish quote_faults_def)
next
  case nn: False
  show ?thesis
  proof (cases "matched_key q")
    case None
    with nn show ?thesis
      by (simp add: quote_callback_unmatched quote_faults_def timestamp_fails_def)
  next
    case (Some k)
    show ?thesis
    proof (cases "timestamp_value rt q")
      case None
      with nn Some show ?thesis
        by (simp add: quote_callback_invalid quote_faults_def timestamp_fails_def)
    next
      case (Some t)
      with nn \<open>matched_key q = Some k\<close> show ?thesis
        by (simp add: quote_callback_stores quote_faults_def timestamp_fails_def)
    qed
  qed
qed

lemma forEach_quote_fault:
  "q \<in> set xs \<Longrightarrow> quote_faults rt q \<Longrightarrow> isl (forEach_quote rt xs acc)"
proof (induction xs arbitrary: acc)
  case Nil
  then show ?case by simp
next
  case (Cons x xs)
  show ?case
  proof (cases "quote_callback rt x acc")
    case (Inl e)
    then show ?thesis by simp
  next
    case (Inr acc')
    then have "\<not> quote_faults rt x"
      using quote_callback_isl [of rt x acc] by simp
    with Cons.prems have "q \<in> set xs" by auto
    with Cons.IH Cons.prems(2) Inr show ?thesis by simp
  qed
qed

lemma forEach_quote_ok:
  "\<forall>q\<in>set xs. \<not> quote_faults rt q \<Longrightarrow> \<exists>quotes. forEach_quote rt xs acc = Inr quotes"
proof (induction xs arbitrary: acc)
  case Nil
  then show ?case by simp
next
  case (Cons x xs)
  then have "\<not> isl (quote_callback rt x acc)"
    by (simp add: quote_callback_isl)
  then obtain acc' where "quote_callback rt x acc = Inr acc'"
    by (cases "quote_callback rt x acc") auto
  with Cons show ?case by simp
qed

lemma forEach_quote_isl:
  "isl (forEach_quote rt xs acc) = (\<exists>q\<in>set xs. quote_faults rt q)"
  using forEach_quote_fault [of _ xs rt acc] forEach_quote_ok [of xs rt acc]
  by (metis sum.disc(2))


lemma quote_callback_Inr:
  assumes "quote_callback rt q acc = Inr acc'"
  shows "\<not> nullish q \<and>
         ((matched_key q = None \<and> acc' = acc) \<or>
          (\<exists>k t. matched_key q = Some k \<and> timestamp_value rt q = Some t \<and>
                 acc' = AList.update k (quote_entry q (isoFormat t)) acc))"
proof -
  from assms have nf: "\<not> quote_faults rt q"
    using quote_callback_isl [of rt q acc] by simp
  then have nn: "\<not> nullish q" by (simp add: quote_faults_def)
  show ?thesis
  proof (cases "matched_key q")
    case None
    with nn assms show ?thesis by (simp add: quote_callback_unmatched)
  next
    case (Some k)
    with nf obtain t where t: "timestamp_value rt q = Some t"
      by (auto simp: quote_faults_def timestamp_fails_def)
    with nn Some assms show ?thesis by (simp add: quote_callback_stores)
  qed
qed

lemma forEach_quote_Cons_Inr:
  assumes "forEach_quote rt (x # xs) acc = Inr quotes"
  obtains acc' where "quote_callback rt x acc = Inr acc'" and "forEach_quote rt xs acc' = Inr quotes"
  using assms by (cases "quote_callback rt x acc") auto

lemma forEach_quote_keys:
  "forEach_quote rt xs acc = Inr quotes \<Longrightarrow>
   fst ` set quotes = fst ` set acc \<union> {k. \<exists>q\<in>set xs. matched_key q = Some k}"
proof (induction xs arbitrary: acc)
  case Nil
  then show ?case by simp
next
  case (Cons x xs)
  from Cons.prems obtain acc' where
    step: "quote_callback rt x acc = Inr acc'" and rest: "forEach_quote rt xs acc' = Inr quotes"
    by (rule forEach_quote_Cons_Inr)
  from Cons.IH [OF rest] have ih:
    "fst ` set quotes = fst ` set acc' \<union> {k. \<exists>q\<in>set xs. matched_key q = Some k}" .
  have "fst ` set acc' = fst ` set acc \<union> {k. matched_key x = Some k}"
  proof (cases "matched_key x")
    case None
    with quote_callback_Inr [OF step] show ?thesis by simp
  next
    case (Some k)
    with quote_callback_Inr [OF step] obtain e where "acc' = AList.update k e acc"
      by auto
    with Some show ?thesis by (simp add: dom_update)
  qed
  with ih show ?case by auto
qed

lemma forEach_quote_distinct:
  "forEach_quote rt xs acc = Inr quotes \<Longrightarrow> distinct (map fst acc) \<Longrightarrow> distinct (map fst quotes)"
proof (induction xs arbitrary: acc)
  case Nil
  then show ?case by simp
next
  case (Cons x xs)
  from Cons.prems(1) obtain acc' where
    step: "quote_callback rt x acc = Inr acc'" and rest: "forEach_quote rt xs acc' = Inr quotes"
    by (rule forEach_quote_Cons_Inr)
  from quote_callback_Inr [OF step] Cons.prems(2) have "distinct (map fst acc')"
    by (auto simp: distinct_update)
  with Cons.IH [OF rest] show ?case .
qed

lemma forEach_quote_append:
  "forEach_quote rt (xs @ ys) acc =
     (case forEach_quote rt xs acc of Inl e \<Rightarrow> Inl e | Inr acc' \<Rightarrow> forEach_quote rt ys acc')"
  by (induction xs arbitrary: acc) (auto split: sum.splits)

lemma forEach_quote_preserves:
  "forEach_quote rt xs acc = Inr quotes \<Longrightarrow> \<forall>p\<in>set xs. matched_key p \<noteq> Some k \<Longrightarrow>
   map_of quotes k = map_of acc k"
proof (induction xs arbitrary: acc)
  case Nil
  then show ?case by simp
next
  case (Cons x xs)
  from Cons.prems(1) obtain acc' where
    step: "quote_callback rt x acc = Inr acc'" and rest: "forEach_quote rt xs acc' = Inr quotes"
    by (rule forEach_quote_Cons_Inr)
  from Cons.prems(2) have x: "matched_key x \<noteq> Some k" and xs: "\<forall>p\<in>set xs. matched_key p \<noteq> Some k"
    by simp_all
  from quote_callback_Inr [OF step] x have "map_of acc' k = map_of acc k"
    by (auto simp: update_conv')
  with Cons.IH [OF rest xs] show ?case by simp
qed

lemma forEach_quote_last:
  assumes "forEach_quote rt (pre @ q # post) acc = Inr quotes"
    and "matched_key q = Some k"
    and "\<forall>p\<in>set post. matched_key p \<noteq> Some k"
  shows "\<exists>t. timestamp_value rt q = Some t \<and>
             map_of quotes k = Some (quote_entry q (isoFormat t))"
proof -
  from assms(1) obtain acc1 where
    a1: "forEach_quote rt pre acc = Inr acc1" and r1: "forEach_quote rt (q # post) acc1 = Inr quotes"
    by (auto simp: forEach_quote_append split: sum.splits)
  from r1 obtain acc2 where
    step: "quote_callback rt q acc1 = Inr acc2" and rest: "forEach_quote rt post acc2 = Inr quotes"
    by (rule forEach_quote_Cons_Inr)
  from quote_callback_Inr [OF step] assms(2) obtain t where
    t: "timestamp_value rt q = Some t" and
    acc2: "acc2 = AList.update k (quote_entry q (isoFormat t)) acc1"
    by auto
  from forEach_quote_preserves [OF rest assms(3)] acc2
  have "map_of quotes k = Some (quote_entry q (isoFormat t))"
    by (simp add: update_conv')
  with t show ?thesis by blast
qed


subsection \<open>The quote phase as a whole\<close>

lemma fetchIndexQuotes_Inr: "\<exists>r. fst (fetchIndexQuotes rt k) = Inr r"
  by (auto simp: fetchIndexQuotes_def split: prod.splits sum.splits)

lemma fetched_append: "fetched (xs @ ys) = fetched xs @ fetched ys"
  by (induction xs rule: fetched.induct) simp_all

lemma fetched_fetchIndexQuotes:
  "fetched (snd (fetchIndexQuotes rt k)) = requested (quote_url rt k)"
  by (auto simp: fetchIndexQuotes_def fetchIndexQuotes_try_def fetched_append requested_def
      split: prod.splits sum.splits fetch_outcome.splits if_splits)

lemma fetchIndexQuotes_body:
  assumes "quote_body rt k = Some data"
  shows "fst (fetchIndexQuotes rt k) =
           Inr (case quotes_of_data rt data of Inl e \<Rightarrow> None | Inr r \<Rightarrow> r)"
  using assms
  by (auto simp: quote_body_def body_of_def fetchIndexQuotes_def fetchIndexQuotes_try_def Let_def
      split: fetch_outcome.splits if_splits sum.splits)

lemma fetchIndexQuotes_silent:
  assumes "quote_body rt k = Some data" and "quotes_of_data rt data = Inr r"
  shows "\<exists>u. quote_url rt k = Inr u \<and> fetchIndexQuotes rt k = (Inr r, [Fetch u])"
  using assms
  by (auto simp: quote_body_def body_of_def fetchIndexQuotes_def fetchIndexQuotes_try_def
      split: fetch_outcome.splits if_splits sum.splits)

lemma fetchIndexQuotes_caught:
  assumes "quote_body rt k = Some data" and "quotes_of_data rt data = Inl e"
  shows "\<exists>u. quote_url rt k = Inr u \<and>
           fetchIndexQuotes rt k =
             (Inr None, [Fetch u, ConsoleWarn [''FMP index quotes fetch failed:'', message e]])"
  using assms
  by (auto simp: quote_body_def body_of_def fetchIndexQuotes_def fetchIndexQuotes_try_def
      split: fetch_outcome.splits if_splits sum.splits)

lemma quote_phase_fails_iff:
  "quote_phase_fails rt k \<longleftrightarrow> fst (fetchIndexQuotes rt k) = Inr None"
  by (auto simp: quote_phase_fails_def fetchIndexQuotes_def fetchIndexQuotes_try_def Let_def
      quotes_of_data_def
      split: fetch_outcome.splits if_splits sum.splits jsval.splits)

subsection \<open>The news phase\<close>

lemma article_callback_isl: "isl (article_callback rt a) = article_faults rt a"
  by (auto simp: article_callback_def article_faults_def get_prop_def Let_def is_string_def
      split: jsval.splits)

lemma map_article_isl: "isl (map_article rt xs) = (\<exists>a\<in>set xs. article_faults rt a)"
proof (induction xs)
  case Nil
  then show ?case by simp
next
  case (Cons x xs)
  then show ?case
    using article_callback_isl [of rt x]
    by (auto split: sum.splits)
qed

lemma map_article_Inr:
  "map_article rt xs = Inr items \<Longrightarrow>
   length items = length xs \<and> (\<forall>i<length xs. article_callback rt (xs ! i) = Inr (items ! i))"
proof (induction xs arbitrary: items)
  case Nil
  then show ?case by simp
next
  case (Cons x xs)
  from Cons.prems obtain item rest where
    x: "article_callback rt x = Inr item" and r: "map_article rt xs = Inr rest" and
    items: "items = item # rest"
    by (auto split: sum.splits)
  from Cons.IH [OF r] x items show ?case
    by (auto simp: nth_Cons split: nat.splits)
qed

lemma fetchMarketNews_Inr: "\<exists>r. fst (fetchMarketNews rt k) = Inr r"
  by (auto simp: fetchMarketNews_def split: prod.splits sum.splits)

lemma fetched_fetchMarketNews:
  "fetched (snd (fetchMarketNews rt k)) = requested (news_url rt k)"
  by (auto simp: fetchMarketNews_def fetchMarketNews_try_def fetched_append requested_def
      split: prod.splits sum.splits fetch_outcome.splits if_splits)

lemma fetchMarketNews_body:
  assumes "news_body rt k = Some data"
  shows "fst (fetchMarketNews rt k) =
           Inr (case news_of_data rt data of Inl e \<Rightarrow> None | Inr r \<Rightarrow> r)"
  using assms
  by (auto simp: news_body_def body_of_def fetchMarketNews_def fetchMarketNews_try_def Let_def
      split: fetch_outcome.splits if_splits sum.splits)

lemma news_phase_fails_iff:
  "news_phase_fails rt k \<longleftrightarrow> fst (fetchMarketNews rt k) = Inr None"
  by (auto simp: news_phase_fails_def fetchMarketNews_def fetchMarketNews_try_def Let_def
      news_of_data_def
      split: fetch_outcome.splits if_splits sum.splits jsval.splits)

subsection \<open>The aggregation\<close>

lemma quote_url_neq_news_url: "quote_url rt k = Inr u \<Longrightarrow> news_url rt k' \<noteq> Inr u"
  by (auto simp: quote_url_def news_url_def BASE_URL_def split: sum.splits)

lemma news_url_not_requested: "news_url rt k' \<notin> Inr ` set (requested (quote_url rt k))"
proof (cases "quote_url rt k")
  case (Inl e)
  then show ?thesis by (simp add: requested_def)
next
  case (Inr u)
  from quote_url_neq_news_url [OF this] Inr show ?thesis
    by (simp add: requested_def)
qed

lemma fetchMarketData_no_key:
  "no_api_key rt env \<Longrightarrow> fetchMarketData rt env = (Inr None, [ConsoleWarn [''FMP_API_KEY not configured'']])"
  by (auto simp: no_api_key_def fetchMarketData_def fetchMarketData_try_def split: sum.splits)

lemma supplied_key_Some:
  "supplied_key rt env = Some k \<longleftrightarrow> get_prop env ''FMP_API_KEY'' = Inr k \<and> ToBoolean rt k"
  by (auto simp: supplied_key_def split: sum.splits if_splits)

lemma fetchMarketData_env_fault:
  "get_prop env ''FMP_API_KEY'' = Inl e \<Longrightarrow>
   fetchMarketData rt env = (Inr None, [ConsoleError [''FMP fetch failed:'', message e]])"
  by (simp add: fetchMarketData_def fetchMarketData_try_def)

lemma fetchMarketData_falsy_key:
  "get_prop env ''FMP_API_KEY'' = Inr k \<Longrightarrow> \<not> ToBoolean rt k \<Longrightarrow>
   fetchMarketData rt env = (Inr None, [ConsoleWarn [''FMP_API_KEY not configured'']])"
  by (simp add: fetchMarketData_def fetchMarketData_try_def)

lemma fetchMarketData_key_absent:
  "supplied_key rt env = None \<Longrightarrow> fst (fetchMarketData rt env) = Inr None"
  by (cases "get_prop env ''FMP_API_KEY''")
     (simp_all add: supplied_key_def fetchMarketData_env_fault fetchMarketData_falsy_key
        split: if_splits)

lemma fetchMarketData_quotes_absent:
  assumes "supplied_key rt env = Some k"
    and "fst (fetchIndexQuotes rt k) = Inr None"
  shows "fetchMarketData rt env = (Inr None, snd (fetchIndexQuotes rt k))"
  using assms
  by (cases "fetchIndexQuotes rt k")
     (simp add: fetchMarketData_def fetchMarketData_try_def supplied_key_Some)

lemma fetchMarketData_quotes_present:
  assumes "supplied_key rt env = Some k"
    and "fst (fetchIndexQuotes rt k) = Inr (Some q)"
    and "fst (fetchMarketNews rt k) = Inr n"
  shows "fetchMarketData rt env =
           (Inr (Some \<lparr> indices = q, news = n, timestamp = isoFormat (now rt) \<rparr>),
            snd (fetchIndexQuotes rt k) @ snd (fetchMarketNews rt k))"
  using assms
  by (cases "fetchIndexQuotes rt k"; cases "fetchMarketNews rt k")
     (simp add: fetchMarketData_def fetchMarketData_try_def toISOString_def supplied_key_Some)

lemma forEach_quote_unmatched:
  "\<forall>q\<in>set xs. \<not> nullish q \<and> matched_key q = None \<Longrightarrow> forEach_quote rt xs acc = Inr acc"
  by (induction xs arbitrary: acc) (simp_all add: quote_callback_unmatched)

lemma quotes_of_data_ok:
  assumes "xs \<noteq> []" and "\<forall>q\<in>set xs. \<not> quote_faults rt q"
  shows "\<exists>quotes. quotes_of_data rt (JArr xs) = Inr (Some quotes) \<and>
                  forEach_quote rt xs [] = Inr quotes"
proof -
  from assms(2) obtain quotes where "forEach_quote rt xs [] = Inr quotes"
    using forEach_quote_ok by blast
  with assms(1) show ?thesis by (simp add: quotes_of_data_def)
qed

lemma article_callback_string:
  assumes "\<not> nullish a" and "read_prop a ''text'' = JStr s"
  shows "article_callback rt a =
           Inr \<lparr> title = read_prop a ''title'',
                 site = read_prop a ''site'',
                 publishedAt = read_prop a ''publishedDate'',
                 url = read_prop a ''url'',
                 summary = (if s = [] then [] else take 200 s @ ''...'') \<rparr>"
  using assms by (simp add: article_callback_def get_prop_def ToBoolean_def)

lemma article_callback_absent:
  assumes "\<not> nullish a" and "read_prop a ''text'' = JUndefined"
  shows "article_callback rt a =
           Inr \<lparr> title = read_prop a ''title'',
                 site = read_prop a ''site'',
                 publishedAt = read_prop a ''publishedDate'',
                 url = read_prop a ''url'',
                 summary = [] \<rparr>"
  using assms by (simp add: article_callback_def get_prop_def ToBoolean_def)

subsection \<open>The example runtime\<close>

lemma quote_url_example:
  "quote_url rt (JStr ''demo'') =
     Inr ''https://financialmodelingprep.com/api/v3/quote/^GSPC,^IXIC,^DJI,^VIX,^TNX?apikey=demo''"
  by (simp add: quote_url_def BASE_URL_def INDICES_def)

lemma news_url_example:
  "news_url rt (JStr ''demo'') =
     Inr ''https://financialmodelingprep.com/api/v3/stock_news?limit=10&apikey=demo''"
  by (simp add: news_url_def BASE_URL_def)

lemma fetch_example_quote:
  "fetch (example_runtime qo no)
     ''https://financialmodelingprep.com/api/v3/quote/^GSPC,^IXIC,^DJI,^VIX,^TNX?apikey=demo'' = qo"
  by (simp add: example_runtime_def transport_def BASE_URL_def)

lemma fetch_example_news:
  "fetch (example_runtime qo no)
     ''https://financialmodelingprep.com/api/v3/stock_news?limit=10&apikey=demo'' = no"
  by (simp add: example_runtime_def transport_def BASE_URL_def)

lemma quote_body_example:
  "quote_body (example_runtime (answer data) no) (JStr ''demo'') = Some data"
  by (simp add: quote_body_def quote_url_example fetch_example_quote body_of_def answer_def)

lemma news_body_example:
  "news_body (example_runtime qo (answer data)) (JStr ''demo'') = Some data"
  by (simp add: news_body_def news_url_example fetch_example_news body_of_def answer_def)

lemma supplied_key_example: "supplied_key (example_runtime qo no) env_with_key = Some (JStr ''demo'')"
  by (simp add: supplied_key_def env_with_key_def get_prop_def nullish_def read_prop_def
      ToBoolean_def)

lemma replicate_numeral: "replicate (numeral k) x = x # replicate (pred_numeral k) x"
  by (simp add: numeral_eq_Suc)

lemma isoFormat_scenario: "isoFormat 1700000000 = ''1970-01-20T16:13:20.000Z''"
  unfolding isoFormat_def civil_def Let_def
  by (simp add: pad_def show_nat.simps digit_def replicate_numeral)

lemma isoFormat_clock: "isoFormat 1700000000000 = ''2023-11-14T22:13:20.000Z''"
  unfolding isoFormat_def civil_def Let_def
  by (simp add: pad_def show_nat.simps digit_def replicate_numeral)

lemma now_example: "now (example_runtime qo no) = 1700000000000"
  by (simp add: example_runtime_def)

lemma matched_key_gspc: "matched_key gspc = Some ''SP500''"
  by (simp add: matched_key_def gspc_def read_prop_def getKeyByValue_def INDICES_def)

lemma timestamp_value_gspc: "timestamp_value (example_runtime qo no) gspc = Some 1700000000"
  by (simp add: timestamp_value_def new_Date_def gspc_def read_prop_def example_runtime_def)

lemma nullish_gspc: "\<not> nullish gspc"
  by (simp add: nullish_def gspc_def)

lemma quotes_of_data_gspc:
  "quotes_of_data (example_runtime qo no) (JArr [gspc]) =
     Inr (Some [(''SP500'', quote_entry gspc ''1970-01-20T16:13:20.000Z'')])"
  by (simp add: quotes_of_data_def
      quote_callback_stores [OF nullish_gspc matched_key_gspc timestamp_value_gspc] isoFormat_scenario)

lemma matched_key_ixic: "matched_key ixic = Some ''NASDAQ''"
  by (simp add: matched_key_def ixic_def read_prop_def getKeyByValue_def INDICES_def)

lemma quote_faults_gspc: "\<not> quote_faults (example_runtime qo no) gspc"
  by (simp add: quote_faults_def timestamp_fails_def nullish_gspc timestamp_value_gspc)

lemma quote_faults_ixic: "\<not> quote_faults (example_runtime qo no) ixic"
  by (simp add: quote_faults_def timestamp_fails_def nullish_def timestamp_value_def new_Date_def ixic_def
      read_prop_def example_runtime_def)

lemma nullish_sample_article: "\<not> nullish (sample_article t body)"
  by (simp add: nullish_def sample_article_def)

lemma text_sample_article: "read_prop (sample_article t body) ''text'' = JStr body"
  by (simp add: read_prop_def sample_article_def)

lemma article_faults_sample_article: "\<not> article_faults rt (sample_article t body)"
  by (simp add: article_faults_def nullish_sample_article text_sample_article is_string_def)

section \<open>The claims\<close>

subsection \<open>The aggregation routine\<close>

text \<open>
  C9. In every environment that supplies no API key (the environment object has no
  \<^verbatim>\<open>FMP_API_KEY\<close>, or a falsy one), \<^verbatim>\<open>fetchMarketData\<close> returns \<^verbatim>\<open>null\<close>, the only thing it
  does is emit the warning, and it requests no URL: neither the quote endpoint nor the
  news endpoint is called.
\<close>

theorem no_key_no_calls:
  assumes "no_api_key rt env"
  shows "fst (fetchMarketData rt env) = Inr None \<and>
         snd (fetchMarketData rt env) = [ConsoleWarn [''FMP_API_KEY not configured'']] \<and>
         fetched (snd (fetchMarketData rt env)) = []"
  using assms by (simp add: fetchMarketData_no_key)

theorem no_key_no_calls_witness:
  "no_api_key (example_runtime (answer (JArr [gspc])) (answer (JArr [])))
     (JObj [(''OTHER'', JStr ''x'')]) \<and>
   fst (fetchMarketData (example_runtime (answer (JArr [gspc])) (answer (JArr [])))
          (JObj [(''OTHER'', JStr ''x'')])) = Inr None \<and>
   fetched (snd (fetchMarketData (example_runtime (answer (JArr [gspc])) (answer (JArr [])))
          (JObj [(''OTHER'', JStr ''x'')]))) = []"
proof -
  have h: "no_api_key (example_runtime (answer (JArr [gspc])) (answer (JArr [])))
             (JObj [(''OTHER'', JStr ''x'')])"
    by (simp add: no_api_key_def get_prop_def nullish_def read_prop_def ToBoolean_def)
  from no_key_no_calls [OF h] h show ?thesis by simp
qed

text \<open>
  C1. Whenever the quote phase fails, for whatever reason (the URL cannot be built, the
  request is rejected, the status is not 2xx, the body is not JSON, is not an array or is
  empty, or the loop throws), \<^verbatim>\<open>fetchMarketData\<close> returns \<^verbatim>\<open>null\<close>, whatever the news endpoint
  would answer. The news phase is not attempted: everything that happened is what the
  quote phase did, the only URL requested is the quote URL, and the news URL is not
  requested.
\<close>

theorem quote_failure_is_fatal:
  assumes "supplied_key rt env = Some apiKey" and "quote_phase_fails rt apiKey"
  shows "fst (fetchMarketData rt env) = Inr None \<and>
         snd (fetchMarketData rt env) = snd (fetchIndexQuotes rt apiKey) \<and>
         fetched (snd (fetchMarketData rt env)) = requested (quote_url rt apiKey) \<and>
         news_url rt apiKey \<notin> Inr ` set (fetched (snd (fetchMarketData rt env)))"
proof -
  from assms(2) have "fst (fetchIndexQuotes rt apiKey) = Inr None"
    by (simp add: quote_phase_fails_iff)
  with assms(1) have "fetchMarketData rt env = (Inr None, snd (fetchIndexQuotes rt apiKey))"
    by (rule fetchMarketData_quotes_absent)
  then show ?thesis
    using news_url_not_requested [of rt apiKey apiKey]
    by (simp add: fetched_fetchIndexQuotes)
qed

theorem quote_failure_is_fatal_witness:
  "quote_phase_fails
     (example_runtime (Rejected (JsError ''TypeError'' ''fetch failed''))
        (answer (JArr [sample_article ''Fed holds rates'' ''hi''])))
     (JStr ''demo'') \<and>
   fetchMarketData
     (example_runtime (Rejected (JsError ''TypeError'' ''fetch failed''))
        (answer (JArr [sample_article ''Fed holds rates'' ''hi''])))
     env_with_key =
   (Inr None,
    [Fetch ''https://financialmodelingprep.com/api/v3/quote/^GSPC,^IXIC,^DJI,^VIX,^TNX?apikey=demo'',
     ConsoleWarn [''FMP index quotes fetch failed:'', ''fetch failed'']]) \<and>
   quote_phase_fails (example_runtime (answer (JArr [gspc])) (answer (JArr [])))
     (JObj [(''toString'', JStr ''demo'')]) \<and>
   fst (fetchMarketData (example_runtime (answer (JArr [gspc])) (answer (JArr [])))
          (JObj [(''FMP_API_KEY'', JObj [(''toString'', JStr ''demo'')])])) = Inr None \<and>
   fetched (snd (fetchMarketData (example_runtime (answer (JArr [gspc])) (answer (JArr [])))
          (JObj [(''FMP_API_KEY'', JObj [(''toString'', JStr ''demo'')])]))) = []"
proof -
  let ?rt = "example_runtime (Rejected (JsError ''TypeError'' ''fetch failed''))
        (answer (JArr [sample_article ''Fed holds rates'' ''hi'']))"
  let ?rt' = "example_runtime (answer (JArr [gspc])) (answer (JArr []))"
  let ?key = "JObj [(''toString'', JStr ''demo'')] :: int jsval"
  let ?env = "JObj [(''FMP_API_KEY'', ?key)]"
  have k: "supplied_key ?rt' ?env = Some ?key"
    by (simp add: supplied_key_def get_prop_def nullish_def read_prop_def ToBoolean_def)
  have u: "quote_url ?rt' ?key =
             Inl (JsError ''TypeError'' ''Cannot convert object to primitive value'')"
    by (simp add: quote_url_def)
  have f': "quote_phase_fails ?rt' ?key"
    by (simp add: quote_phase_fails_def u)
  have f: "quote_phase_fails ?rt (JStr ''demo'')"
    by (simp add: quote_phase_fails_def quote_url_example fetch_example_quote)
  have tr: "snd (fetchIndexQuotes ?rt (JStr ''demo'')) =
    [Fetch ''https://financialmodelingprep.com/api/v3/quote/^GSPC,^IXIC,^DJI,^VIX,^TNX?apikey=demo'',
     ConsoleWarn [''FMP index quotes fetch failed:'', ''fetch failed'']]"
    by (simp add: fetchIndexQuotes_def fetchIndexQuotes_try_def quote_url_example
        fetch_example_quote)
  from quote_failure_is_fatal [OF supplied_key_example f] tr
  have a: "fetchMarketData ?rt env_with_key =
    (Inr None,
     [Fetch ''https://financialmodelingprep.com/api/v3/quote/^GSPC,^IXIC,^DJI,^VIX,^TNX?apikey=demo'',
      ConsoleWarn [''FMP index quotes fetch failed:'', ''fetch failed'']])"
    by (simp add: prod_eq_iff)
  from quote_failure_is_fatal [OF k f']
  have b: "fst (fetchMarketData ?rt' ?env) = Inr None"
    and "fetched (snd (fetchMarketData ?rt' ?env)) = requested (quote_url ?rt' ?key)"
    by blast+
  with u have c: "fetched (snd (fetchMarketData ?rt' ?env)) = []"
    by (simp add: requested_def)
  from f a f' b c show ?thesis by blast
qed

text \<open>
  C4, as stated, fails. The claim: the result is always one of a full snapshot, a
  snapshot with quotes and absent news, and \<^verbatim>\<open>null\<close>. The provider answers the quote request
  with one record for a ticker the module does not track, and the news request with one
  article: the result is a snapshot with news and no quote at all.
\<close>

theorem empty_quotes_with_news_counterexample:
  "fst (fetchMarketData
          (example_runtime (answer (JArr [JObj [(''symbol'', JStr ''TSLA'')]]))
             (answer (JArr [sample_article ''Fed holds rates'' ''hi''])))
          env_with_key) =
     Inr (Some \<lparr> indices = [],
                  news = Some [\<lparr> title = JStr ''Fed holds rates'', site = JStr ''example.com'',
                                 publishedAt = JUndefined, url = JUndefined,
                                 summary = ''hi...'' \<rparr>],
                  timestamp = ''2023-11-14T22:13:20.000Z'' \<rparr>)"
proof -
  let ?tsla = "JObj [(''symbol'', JStr ''TSLA'')] :: int jsval"
  let ?art = "sample_article ''Fed holds rates'' ''hi''"
  let ?rt = "example_runtime (answer (JArr [?tsla])) (answer (JArr [?art]))"
  have m: "matched_key ?tsla = None"
    by (simp add: matched_key_def read_prop_def getKeyByValue_def INDICES_def)
  have nn: "\<not> nullish ?tsla"
    by (simp add: nullish_def)
  have q: "fst (fetchIndexQuotes ?rt (JStr ''demo'')) = Inr (Some [])"
    by (simp add: fetchIndexQuotes_body [OF quote_body_example] quotes_of_data_def
        quote_callback_unmatched [OF nn m])
  have a: "article_callback ?rt ?art =
             Inr \<lparr> title = JStr ''Fed holds rates'', site = JStr ''example.com'',
                   publishedAt = JUndefined, url = JUndefined, summary = ''hi...'' \<rparr>"
    by (simp add: article_callback_string [OF nullish_sample_article text_sample_article])
       (simp add: sample_article_def read_prop_def)
  have n: "fst (fetchMarketNews ?rt (JStr ''demo'')) =
             Inr (Some [\<lparr> title = JStr ''Fed holds rates'', site = JStr ''example.com'',
                           publishedAt = JUndefined, url = JUndefined, summary = ''hi...'' \<rparr>])"
    by (simp add: fetchMarketNews_body [OF news_body_example] news_of_data_def a)
  from fetchMarketData_quotes_present [OF supplied_key_example q n] show ?thesis
    by (simp add: now_example isoFormat_clock)
qed

text \<open>
  C4, amended. For every runtime (whatever the transport and the JSON parser do,
  errors included) and every environment value, \<^verbatim>\<open>fetchMarketData\<close> returns normally: no
  error leaves it. What it returns is one of three: \<^verbatim>\<open>null\<close>, when no key is supplied or the
  quote phase returned \<^verbatim>\<open>null\<close>; or a snapshot of the mapping the quote phase returned (which
  may be empty), the news the news phase returned and the time of the clock; or a snapshot
  of that mapping, \<^verbatim>\<open>null\<close> news, the news phase having returned \<^verbatim>\<open>null\<close>, and the time of the
  clock.
\<close>

theorem no_fault_escapes:
  "(fst (fetchMarketData rt env) = Inr None \<and>
      (supplied_key rt env = None \<or>
       (\<exists>k. supplied_key rt env = Some k \<and> fst (fetchIndexQuotes rt k) = Inr None))) \<or>
   (\<exists>k q items.
      supplied_key rt env = Some k \<and>
      fst (fetchIndexQuotes rt k) = Inr (Some q) \<and>
      fst (fetchMarketNews rt k) = Inr (Some items) \<and>
      fst (fetchMarketData rt env) =
        Inr (Some \<lparr> indices = q, news = Some items, timestamp = isoFormat (now rt) \<rparr>)) \<or>
   (\<exists>k q.
      supplied_key rt env = Some k \<and>
      fst (fetchIndexQuotes rt k) = Inr (Some q) \<and>
      fst (fetchMarketNews rt k) = Inr None \<and>
      fst (fetchMarketData rt env) =
        Inr (Some \<lparr> indices = q, news = None, timestamp = isoFormat (now rt) \<rparr>))"
proof (cases "supplied_key rt env")
  case None
  then show ?thesis by (simp add: fetchMarketData_key_absent)
next
  case key: (Some k)
  obtain r where r: "fst (fetchIndexQuotes rt k) = Inr r"
    using fetchIndexQuotes_Inr by blast
  show ?thesis
  proof (cases r)
    case None
    with key r have "fst (fetchMarketData rt env) = Inr None"
      by (simp add: fetchMarketData_quotes_absent)
    with key r None show ?thesis by simp
  next
    case (Some q)
    obtain n where n: "fst (fetchMarketNews rt k) = Inr n"
      using fetchMarketNews_Inr by blast
    from key r Some n have
      d: "fst (fetchMarketData rt env) =
            Inr (Some \<lparr> indices = q, news = n, timestamp = isoFormat (now rt) \<rparr>)"
      by (simp add: fetchMarketData_quotes_present)
    show ?thesis
    proof (cases n)
      case None
      with key r Some n d show ?thesis by simp
    next
      case items: (Some items)
      with key r Some n d show ?thesis by simp
    qed
  qed
qed

theorem no_fault_escapes_witness:
  "fst (fetchMarketData
          (example_runtime (Resolved \<lparr> ok = True, status = 200,
                                       json = Inl (JsError ''SyntaxError'' ''Unexpected token'') \<rparr>)
             (answer (JArr [JNull])))
          env_with_key) = Inr None \<and>
   fst (fetchMarketData (example_runtime (answer (JArr [gspc])) (answer (JArr [JNull]))) JNull) =
     Inr None \<and>
   fst (fetchMarketData
          (example_runtime (answer (JArr [gspc])) (answer (JArr [])))
          (JObj [(''FMP_API_KEY'', JObj [(''toString'', JNum 1)])])) = Inr None"
proof -
  let ?rt = "example_runtime (Resolved \<lparr> ok = True, status = 200,
                                       json = Inl (JsError ''SyntaxError'' ''Unexpected token'') \<rparr>)
             (answer (JArr [JNull]))"
  let ?rt' = "example_runtime (answer (JArr [gspc])) (answer (JArr [JNull]))"
  let ?rt'' = "example_runtime (answer (JArr [gspc])) (answer (JArr []))"
  let ?key = "JObj [(''toString'', JNum 1)] :: int jsval"
  let ?env = "JObj [(''FMP_API_KEY'', ?key)]"
  have "fst (fetchIndexQuotes ?rt (JStr ''demo'')) = Inr None"
    by (simp add: fetchIndexQuotes_def fetchIndexQuotes_try_def quote_url_example
        fetch_example_quote)
  then have a: "fst (fetchMarketData ?rt env_with_key) = Inr None"
    by (simp add: fetchMarketData_quotes_absent [OF supplied_key_example])
  have b: "fst (fetchMarketData ?rt' JNull) = Inr None"
    by (simp add: fetchMarketData_def fetchMarketData_try_def get_prop_def nullish_def)
  have k: "supplied_key ?rt'' ?env = Some ?key"
    by (simp add: supplied_key_def get_prop_def nullish_def read_prop_def ToBoolean_def)
  have "fst (fetchIndexQuotes ?rt'' ?key) = Inr None"
    by (simp add: fetchIndexQuotes_def fetchIndexQuotes_try_def quote_url_def)
  then have c: "fst (fetchMarketData ?rt'' ?env) = Inr None"
    by (simp add: fetchMarketData_quotes_absent [OF k])
  from no_fault_escapes [of ?rt env_with_key] no_fault_escapes [of ?rt' JNull]
       no_fault_escapes [of ?rt'' ?env] a b c
  show ?thesis by simp
qed

text \<open>
  C5. Whenever the quote phase succeeds and the news phase fails (the request is
  rejected, the status is not 2xx, the body is not JSON, is not an array or is empty, or
  the mapping throws), \<^verbatim>\<open>fetchMarketData\<close> still returns a snapshot: it holds the quotes the
  quote phase returned, \<^verbatim>\<open>null\<close> news, and the ISO-8601 string of the clock as timestamp.
\<close>

theorem news_failure_not_fatal:
  assumes "supplied_key rt env = Some apiKey"
    and "fst (fetchIndexQuotes rt apiKey) = Inr (Some quotes)"
    and "news_phase_fails rt apiKey"
  shows "fst (fetchMarketData rt env) =
           Inr (Some \<lparr> indices = quotes, news = None, timestamp = isoFormat (now rt) \<rparr>)"
proof -
  from assms(3) have "fst (fetchMarketNews rt apiKey) = Inr None"
    by (simp add: news_phase_fails_iff)
  with assms(1,2) show ?thesis by (simp add: fetchMarketData_quotes_present)
qed

theorem news_failure_not_fatal_witness:
  "news_phase_fails (example_runtime (answer (JArr [gspc])) (answer (JArr []))) (JStr ''demo'') \<and>
   fst (fetchMarketData (example_runtime (answer (JArr [gspc])) (answer (JArr []))) env_with_key) =
     Inr (Some \<lparr> indices = [(''SP500'', quote_entry gspc ''1970-01-20T16:13:20.000Z'')],
                  news = None,
                  timestamp = ''2023-11-14T22:13:20.000Z'' \<rparr>)"
proof -
  let ?rt = "example_runtime (answer (JArr [gspc])) (answer (JArr []))"
  have q: "fst (fetchIndexQuotes ?rt (JStr ''demo'')) =
             Inr (Some [(''SP500'', quote_entry gspc ''1970-01-20T16:13:20.000Z'')])"
    by (simp add: fetchIndexQuotes_body [OF quote_body_example] quotes_of_data_gspc)
  have n: "news_phase_fails ?rt (JStr ''demo'')"
    by (simp add: news_phase_fails_def news_url_example fetch_example_news answer_def)
  from news_failure_not_fatal [OF supplied_key_example q n] n show ?thesis
    by (simp add: now_example isoFormat_clock)
qed

subsection \<open>The quote phase\<close>

text \<open>
  C2, as stated, fails. The claim: a raw quote input that is empty, is not an array or
  holds no record with a known ticker normalizes to \<^verbatim>\<open>null\<close>, and the snapshot is absent. The
  provider answers the quote request with one record for a ticker the module does not
  track: \<^verbatim>\<open>fetchIndexQuotes\<close> returns the empty object, which is truthy, and
  \<^verbatim>\<open>fetchMarketData\<close> returns a snapshot whose indices are empty.
\<close>

theorem zero_match_counterexample:
  "matched_key (JObj [(''symbol'', JStr ''AAPL''), (''price'', JNum (190::int))]) = None \<and>
   fst (fetchIndexQuotes
          (example_runtime
             (answer (JArr [JObj [(''symbol'', JStr ''AAPL''), (''price'', JNum 190)]]))
             (answer (JArr [])))
          (JStr ''demo'')) = Inr (Some []) \<and>
   fst (fetchMarketData
          (example_runtime
             (answer (JArr [JObj [(''symbol'', JStr ''AAPL''), (''price'', JNum 190)]]))
             (answer (JArr [])))
          env_with_key) =
     Inr (Some \<lparr> indices = [], news = None, timestamp = ''2023-11-14T22:13:20.000Z'' \<rparr>)"
proof -
  let ?aapl = "JObj [(''symbol'', JStr ''AAPL''), (''price'', JNum (190::int))]"
  let ?rt = "example_runtime (answer (JArr [?aapl])) (answer (JArr []))"
  have m: "matched_key ?aapl = None"
    by (simp add: matched_key_def read_prop_def getKeyByValue_def INDICES_def)
  have nn: "\<not> nullish ?aapl"
    by (simp add: nullish_def)
  have q: "fst (fetchIndexQuotes ?rt (JStr ''demo'')) = Inr (Some [])"
    by (simp add: fetchIndexQuotes_body [OF quote_body_example] quotes_of_data_def
        quote_callback_unmatched [OF nn m])
  have n: "fst (fetchMarketNews ?rt (JStr ''demo'')) = Inr None"
    by (simp add: fetchMarketNews_body [OF news_body_example] news_of_data_def)
  from m q fetchMarketData_quotes_present [OF supplied_key_example q n] show ?thesis
    by (simp add: now_example isoFormat_clock)
qed

text \<open>
  C2, amended. A parsed quote body that is not an array, or is the empty array, makes
  \<^verbatim>\<open>fetchIndexQuotes\<close> return \<^verbatim>\<open>null\<close> and with it \<^verbatim>\<open>fetchMarketData\<close>. A non-empty array of
  non-null records none of which has a known ticker makes \<^verbatim>\<open>fetchIndexQuotes\<close> return the
  empty mapping, not \<^verbatim>\<open>null\<close>, and \<^verbatim>\<open>fetchMarketData\<close> return a snapshot with empty indices.
\<close>

theorem empty_or_unmatched_quotes:
  assumes "supplied_key rt env = Some apiKey" and "quote_body rt apiKey = Some data"
  shows "(\<not> is_array data \<or> data = JArr [] \<longrightarrow>
            fst (fetchIndexQuotes rt apiKey) = Inr None \<and>
            fst (fetchMarketData rt env) = Inr None) \<and>
         (\<forall>xs. data = JArr xs \<and> xs \<noteq> [] \<and> (\<forall>q\<in>set xs. \<not> nullish q \<and> matched_key q = None) \<longrightarrow>
            fst (fetchIndexQuotes rt apiKey) = Inr (Some []) \<and>
            (\<exists>n. fst (fetchMarketData rt env) =
                   Inr (Some \<lparr> indices = [], news = n, timestamp = isoFormat (now rt) \<rparr>)))"
proof (intro conjI impI allI)
  assume "\<not> is_array data \<or> data = JArr []"
  then have "quotes_of_data rt data = Inr None"
    by (auto simp: quotes_of_data_def is_array_def split: jsval.splits)
  with assms(2) show a: "fst (fetchIndexQuotes rt apiKey) = Inr None"
    by (simp add: fetchIndexQuotes_body)
  with assms(1) show "fst (fetchMarketData rt env) = Inr None"
    by (simp add: fetchMarketData_quotes_absent)
next
  fix xs
  assume h: "data = JArr xs \<and> xs \<noteq> [] \<and> (\<forall>q\<in>set xs. \<not> nullish q \<and> matched_key q = None)"
  then have "quotes_of_data rt data = Inr (Some [])"
    by (simp add: quotes_of_data_def forEach_quote_unmatched)
  with assms(2) show q: "fst (fetchIndexQuotes rt apiKey) = Inr (Some [])"
    by (simp add: fetchIndexQuotes_body)
  obtain n where "fst (fetchMarketNews rt apiKey) = Inr n"
    using fetchMarketNews_Inr by blast
  with assms(1) q show "\<exists>n. fst (fetchMarketData rt env) =
      Inr (Some \<lparr> indices = [], news = n, timestamp = isoFormat (now rt) \<rparr>)"
    by (auto simp: fetchMarketData_quotes_present)
qed

theorem empty_or_unmatched_quotes_witness:
  "fst (fetchMarketData (example_runtime (answer (JArr [])) (answer (JArr []))) env_with_key) =
     Inr None \<and>
   fst (fetchMarketData (example_runtime (answer (JStr ''unavailable'')) (answer (JArr []))) env_with_key) =
     Inr None \<and>
   fst (fetchIndexQuotes
          (example_runtime (answer (JArr [JObj [(''symbol'', JStr ''MSFT'')], JNum 7]))
             (answer (JArr [])))
          (JStr ''demo'')) = Inr (Some [])"
proof -
  let ?xs = "[JObj [(''symbol'', JStr ''MSFT'')], JNum (7::int)]"
  let ?rt1 = "example_runtime (answer (JArr [])) (answer (JArr []))"
  let ?rt2 = "example_runtime (answer (JStr ''unavailable'')) (answer (JArr []))"
  let ?rt3 = "example_runtime (answer (JArr ?xs)) (answer (JArr []))"
  have b1: "quote_body ?rt1 (JStr ''demo'') = Some (JArr [])"
    by (rule quote_body_example)
  have b2: "quote_body ?rt2 (JStr ''demo'') = Some (JStr ''unavailable'')"
    by (rule quote_body_example)
  have b3: "quote_body ?rt3 (JStr ''demo'') = Some (JArr ?xs)"
    by (rule quote_body_example)
  have u: "\<forall>q\<in>set ?xs. \<not> nullish q \<and> matched_key q = None"
    by (simp add: nullish_def matched_key_def read_prop_def getKeyByValue_def INDICES_def)
  from empty_or_unmatched_quotes [OF supplied_key_example b1]
       empty_or_unmatched_quotes [OF supplied_key_example b2]
       empty_or_unmatched_quotes [OF supplied_key_example b3]
       u
  show ?thesis by (simp add: is_array_def)
qed

text \<open>
  C3, as stated, fails. The claim: a record whose timestamp does not convert is left out
  and the other matched records still appear. Here the first record is the valid one of
  the specification's scenario and the second, for another index, has no timestamp:
  \<^verbatim>\<open>toISOString\<close> throws on it, the \<^verbatim>\<open>catch\<close> of the function takes over, and the result is
  \<^verbatim>\<open>null\<close>, the first record lost with it.
\<close>

theorem timestamp_failure_counterexample:
  "matched_key gspc = Some ''SP500'' \<and>
   timestamp_value
     (example_runtime (answer (JArr [gspc, JObj [(''symbol'', JStr ''^IXIC''), (''price'', JNum 16000)]]))
        (answer (JArr [])))
     gspc = Some 1700000000 \<and>
   timestamp_fails
     (example_runtime (answer (JArr [gspc, JObj [(''symbol'', JStr ''^IXIC''), (''price'', JNum 16000)]]))
        (answer (JArr [])))
     (JObj [(''symbol'', JStr ''^IXIC''), (''price'', JNum 16000)]) \<and>
   fst (fetchIndexQuotes
          (example_runtime (answer (JArr [gspc, JObj [(''symbol'', JStr ''^IXIC''), (''price'', JNum 16000)]]))
             (answer (JArr [])))
          (JStr ''demo'')) = Inr None"
proof -
  let ?bad = "JObj [(''symbol'', JStr ''^IXIC''), (''price'', JNum (16000::int))]"
  let ?rt = "example_runtime (answer (JArr [gspc, ?bad])) (answer (JArr []))"
  have nn: "\<not> nullish ?bad" by (simp add: nullish_def)
  have m: "matched_key ?bad = Some ''NASDAQ''"
    by (simp add: matched_key_def read_prop_def getKeyByValue_def INDICES_def)
  have d: "timestamp_value ?rt ?bad = None"
    by (simp add: timestamp_value_def new_Date_def read_prop_def)
  have tf: "timestamp_fails ?rt ?bad"
    using m d by (simp add: timestamp_fails_def)
  have "isl (quote_callback ?rt ?bad [(''SP500'', quote_entry gspc ''1970-01-20T16:13:20.000Z'')])"
    by (rule quote_callback_invalid [OF nn m d])
  then obtain e where
    "quote_callback ?rt ?bad [(''SP500'', quote_entry gspc ''1970-01-20T16:13:20.000Z'')] = Inl e"
    by (auto simp: isl_def)
  then have "quotes_of_data ?rt (JArr [gspc, ?bad]) = Inl e"
    by (simp add: quotes_of_data_def isoFormat_scenario
        quote_callback_stores [OF nullish_gspc matched_key_gspc timestamp_value_gspc])
  then have "fst (fetchIndexQuotes ?rt (JStr ''demo'')) = Inr None"
    by (simp add: fetchIndexQuotes_body [OF quote_body_example])
  with matched_key_gspc timestamp_value_gspc tf show ?thesis by simp
qed

text \<open>
  C3, amended. If any record of the raw quote input has a known ticker and a timestamp
  that does not convert, the conversion error ends the whole normalization:
  \<^verbatim>\<open>fetchIndexQuotes\<close> returns \<^verbatim>\<open>null\<close>, having logged the warning of its \<^verbatim>\<open>catch\<close>, so no
  record appears in a result.
\<close>

theorem timestamp_failure_aborts:
  assumes "quote_body rt apiKey = Some (JArr xs)" and "q \<in> set xs" and "timestamp_fails rt q"
  shows "fst (fetchIndexQuotes rt apiKey) = Inr None \<and>
         (\<exists>u m. quote_url rt apiKey = Inr u \<and>
                snd (fetchIndexQuotes rt apiKey) =
                  [Fetch u, ConsoleWarn [''FMP index quotes fetch failed:'', m]])"
proof -
  from assms(3) have "quote_faults rt q" by (simp add: quote_faults_def)
  with assms(2) have "isl (forEach_quote rt xs [])" by (rule forEach_quote_fault)
  then obtain e where "forEach_quote rt xs [] = Inl e"
    by (auto simp: isl_def)
  moreover from assms(2) have "xs \<noteq> []" by auto
  ultimately have "quotes_of_data rt (JArr xs) = Inl e"
    by (simp add: quotes_of_data_def)
  with assms(1) obtain u where "quote_url rt apiKey = Inr u" and
    "fetchIndexQuotes rt apiKey =
       (Inr None, [Fetch u, ConsoleWarn [''FMP index quotes fetch failed:'', message e]])"
    using fetchIndexQuotes_caught by blast
  then show ?thesis by simp
qed

theorem timestamp_failure_aborts_witness:
  "timestamp_fails
     (example_runtime (answer (JArr [gspc, JObj [(''symbol'', JStr ''^DJI''), (''timestamp'', JStr ''soon'')]]))
        (answer (JArr [])))
     (JObj [(''symbol'', JStr ''^DJI''), (''timestamp'', JStr ''soon'')]) \<and>
   fst (fetchIndexQuotes
          (example_runtime (answer (JArr [gspc, JObj [(''symbol'', JStr ''^DJI''), (''timestamp'', JStr ''soon'')]]))
             (answer (JArr [])))
          (JStr ''demo'')) = Inr None"
proof -
  let ?bad = "JObj [(''symbol'', JStr ''^DJI''), (''timestamp'', JStr ''soon'')] :: int jsval"
  let ?rt = "example_runtime (answer (JArr [gspc, ?bad])) (answer (JArr []))"
  have tf: "timestamp_fails ?rt ?bad"
    by (simp add: timestamp_fails_def matched_key_def read_prop_def getKeyByValue_def INDICES_def
        timestamp_value_def new_Date_def example_runtime_def)
  have i: "?bad \<in> set [gspc, ?bad]" by simp
  from timestamp_failure_aborts [OF quote_body_example i tf] tf show ?thesis by simp
qed

text \<open>
  C8, as stated, fails. The claim gives every raw quote input with at least one known
  ticker an output mapping whose keys are the identifiers matched. This input has one
  record with a known ticker, and its timestamp, in nanoseconds, is beyond what a date
  holds: the result is \<^verbatim>\<open>null\<close>, not a mapping with the key \<^verbatim>\<open>SP500\<close>.
\<close>

theorem unconvertible_timestamp_counterexample:
  "matched_key (JObj [(''symbol'', JStr ''^GSPC''), (''price'', JNum (5000::int)),
                      (''timestamp'', JNum 1700000000000000000)]) = Some ''SP500'' \<and>
   fst (fetchIndexQuotes
          (example_runtime
             (answer (JArr [JObj [(''symbol'', JStr ''^GSPC''), (''price'', JNum 5000),
                                  (''timestamp'', JNum 1700000000000000000)]]))
             (answer (JArr [])))
          (JStr ''demo'')) = Inr None"
proof -
  let ?r = "JObj [(''symbol'', JStr ''^GSPC''), (''price'', JNum (5000::int)),
                  (''timestamp'', JNum 1700000000000000000)]"
  let ?rt = "example_runtime (answer (JArr [?r])) (answer (JArr []))"
  have nn: "\<not> nullish ?r" by (simp add: nullish_def)
  have m: "matched_key ?r = Some ''SP500''"
    by (simp add: matched_key_def read_prop_def getKeyByValue_def INDICES_def)
  have d: "timestamp_value ?rt ?r = None"
    by (simp add: timestamp_value_def new_Date_def read_prop_def example_runtime_def)
  from quote_callback_invalid [OF nn m d, of "[]"] obtain e where
    "quote_callback ?rt ?r [] = Inl e"
    by (auto simp: isl_def)
  then have "quotes_of_data ?rt (JArr [?r]) = Inl e"
    by (simp add: quotes_of_data_def)
  then have "fst (fetchIndexQuotes ?rt (JStr ''demo'')) = Inr None"
    by (simp add: fetchIndexQuotes_body [OF quote_body_example])
  with m show ?thesis by simp
qed

text \<open>
  C8, amended. For every raw quote input with at least one record of a known ticker, in
  which no element is \<^verbatim>\<open>null\<close> and the timestamp of every record with a known ticker
  converts, \<^verbatim>\<open>fetchIndexQuotes\<close> returns a mapping whose keys are exactly the identifiers
  whose ticker some record has, each once; records with other tickers are dropped and
  nothing is logged.
\<close>

theorem matched_keys_exact:
  assumes "quote_body rt apiKey = Some (JArr xs)"
    and "\<exists>q\<in>set xs. matched_key q \<noteq> None"
    and "\<forall>q\<in>set xs. \<not> quote_faults rt q"
  shows "\<exists>quotes u. quote_url rt apiKey = Inr u \<and>
           fetchIndexQuotes rt apiKey = (Inr (Some quotes), [Fetch u]) \<and>
           fst ` set quotes = {k. \<exists>q\<in>set xs. matched_key q = Some k} \<and>
           distinct (map fst quotes)"
proof -
  from assms(2) have "xs \<noteq> []" by auto
  from quotes_of_data_ok [OF this assms(3)] obtain quotes where
    q: "quotes_of_data rt (JArr xs) = Inr (Some quotes)" and f: "forEach_quote rt xs [] = Inr quotes"
    by blast
  from fetchIndexQuotes_silent [OF assms(1) q] obtain u where
    "quote_url rt apiKey = Inr u" and
    "fetchIndexQuotes rt apiKey = (Inr (Some quotes), [Fetch u])"
    by blast
  moreover from forEach_quote_keys [OF f]
  have "fst ` set quotes = {k. \<exists>q\<in>set xs. matched_key q = Some k}" by simp
  moreover from forEach_quote_distinct [OF f] have "distinct (map fst quotes)" by simp
  ultimately show ?thesis by blast
qed

theorem matched_keys_exact_witness:
  "\<exists>quotes.
     fst (fetchIndexQuotes
            (example_runtime
               (answer (JArr [ixic, JObj [(''symbol'', JStr ''AAPL'')], gspc, JStr ''noise'']))
               (answer (JArr [])))
            (JStr ''demo'')) = Inr (Some quotes) \<and>
     fst ` set quotes = {''SP500'', ''NASDAQ''}"
proof -
  let ?aapl = "JObj [(''symbol'', JStr ''AAPL'')] :: int jsval"
  let ?xs = "[ixic, ?aapl, gspc, JStr ''noise'']"
  let ?rt = "example_runtime (answer (JArr ?xs)) (answer (JArr []))"
  have u1: "matched_key ?aapl = None"
    by (simp add: matched_key_def read_prop_def getKeyByValue_def INDICES_def)
  have u2: "matched_key (JStr ''noise'' :: int jsval) = None"
    by (simp add: matched_key_def read_prop_def getKeyByValue_def INDICES_def)
  have b: "quote_body ?rt (JStr ''demo'') = Some (JArr ?xs)"
    by (rule quote_body_example)
  have m: "\<exists>q\<in>set ?xs. matched_key q \<noteq> None"
    by (simp add: matched_key_gspc)
  have ok: "\<forall>q\<in>set ?xs. \<not> quote_faults ?rt q"
    by (simp add: quote_faults_gspc quote_faults_ixic)
       (simp add: quote_faults_def timestamp_fails_def nullish_def u1 u2)
  have ks: "{k. \<exists>q\<in>set ?xs. matched_key q = Some k} = {''SP500'', ''NASDAQ''}"
    by (auto simp: matched_key_gspc matched_key_ixic u1 u2)
  from matched_keys_exact [OF b m ok] obtain quotes u where
    r: "fetchIndexQuotes ?rt (JStr ''demo'') = (Inr (Some quotes), [Fetch u])"
    and k: "fst ` set quotes = {k. \<exists>q\<in>set ?xs. matched_key q = Some k}"
    by blast
  from k ks have "fst ` set quotes = {''SP500'', ''NASDAQ''}" by (rule trans)
  moreover from r have "fst (fetchIndexQuotes ?rt (JStr ''demo'')) = Inr (Some quotes)"
    by (rule arg_cong [where f = fst, THEN trans]) simp
  ultimately show ?thesis by blast
qed

text \<open>
  C10, as stated, fails. The claim: of several records with the same known ticker the
  last one makes the entry. Of these two records for \<^verbatim>\<open>^VIX\<close> the last is complete, and the
  first has no timestamp: the loop throws at the first, and there is no entry at all.
\<close>

theorem duplicate_ticker_counterexample:
  "matched_key (JObj [(''symbol'', JStr ''^VIX''), (''price'', JNum (14::int))]) = Some ''VIX'' \<and>
   matched_key (JObj [(''symbol'', JStr ''^VIX''), (''price'', JNum (15::int)),
                      (''timestamp'', JNum 1700000000)]) = Some ''VIX'' \<and>
   fst (fetchIndexQuotes
          (example_runtime
             (answer (JArr [JObj [(''symbol'', JStr ''^VIX''), (''price'', JNum 14)],
                            JObj [(''symbol'', JStr ''^VIX''), (''price'', JNum 15),
                                  (''timestamp'', JNum 1700000000)]]))
             (answer (JArr [])))
          (JStr ''demo'')) = Inr None"
proof -
  let ?first = "JObj [(''symbol'', JStr ''^VIX''), (''price'', JNum (14::int))]"
  let ?last = "JObj [(''symbol'', JStr ''^VIX''), (''price'', JNum (15::int)),
                     (''timestamp'', JNum 1700000000)]"
  let ?rt = "example_runtime (answer (JArr [?first, ?last])) (answer (JArr []))"
  have nn: "\<not> nullish ?first" by (simp add: nullish_def)
  have m: "matched_key ?first = Some ''VIX''"
    by (simp add: matched_key_def read_prop_def getKeyByValue_def INDICES_def)
  have d: "timestamp_value ?rt ?first = None"
    by (simp add: timestamp_value_def new_Date_def read_prop_def)
  from quote_callback_invalid [OF nn m d, of "[]"] obtain e where
    "quote_callback ?rt ?first [] = Inl e"
    by (auto simp: isl_def)
  then have "quotes_of_data ?rt (JArr [?first, ?last]) = Inl e"
    by (simp add: quotes_of_data_def)
  then have "fst (fetchIndexQuotes ?rt (JStr ''demo'')) = Inr None"
    by (simp add: fetchIndexQuotes_body [OF quote_body_example])
  moreover have "matched_key ?last = Some ''VIX''"
    by (simp add: matched_key_def read_prop_def getKeyByValue_def INDICES_def)
  ultimately show ?thesis using m by simp
qed

text \<open>
  C10, amended. For every raw quote input in which no element is \<^verbatim>\<open>null\<close> and the
  timestamp of every record with a known ticker converts: the entry of an identifier is
  built from the last record that has its ticker, whatever records come before it, and
  the identifier occurs once in the mapping.
\<close>

theorem last_duplicate_wins:
  assumes "quote_body rt apiKey = Some (JArr (pre @ q # post))"
    and "\<forall>r\<in>set (pre @ q # post). \<not> quote_faults rt r"
    and "matched_key q = Some key"
    and "\<forall>p\<in>set post. matched_key p \<noteq> Some key"
  shows "\<exists>quotes t. fst (fetchIndexQuotes rt apiKey) = Inr (Some quotes) \<and>
           timestamp_value rt q = Some t \<and>
           map_of quotes key = Some (quote_entry q (isoFormat t)) \<and>
           distinct (map fst quotes)"
proof -
  have "pre @ q # post \<noteq> []" by simp
  from quotes_of_data_ok [OF this assms(2)] obtain quotes where
    qd: "quotes_of_data rt (JArr (pre @ q # post)) = Inr (Some quotes)" and
    f: "forEach_quote rt (pre @ q # post) [] = Inr quotes"
    by blast
  from fetchIndexQuotes_silent [OF assms(1) qd]
  have r: "fst (fetchIndexQuotes rt apiKey) = Inr (Some quotes)" by auto
  from forEach_quote_last [OF f assms(3,4)] obtain t where
    "timestamp_value rt q = Some t" and
    "map_of quotes key = Some (quote_entry q (isoFormat t))"
    by blast
  moreover from forEach_quote_distinct [OF f] have "distinct (map fst quotes)" by simp
  ultimately show ?thesis using r by blast
qed

theorem last_duplicate_wins_witness:
  "\<exists>quotes.
     fst (fetchIndexQuotes
            (example_runtime
               (answer (JArr [JObj [(''symbol'', JStr ''^GSPC''), (''price'', JNum 4999),
                                    (''timestamp'', JNum 1699999999)],
                              gspc, ixic]))
               (answer (JArr [])))
            (JStr ''demo'')) = Inr (Some quotes) \<and>
     map_of quotes ''SP500'' = Some (quote_entry gspc ''1970-01-20T16:13:20.000Z'')"
proof -
  let ?old = "JObj [(''symbol'', JStr ''^GSPC''), (''price'', JNum (4999::int)),
                    (''timestamp'', JNum 1699999999)]"
  let ?rt = "example_runtime (answer (JArr [?old, gspc, ixic])) (answer (JArr []))"
  have b: "quote_body ?rt (JStr ''demo'') = Some (JArr ([?old] @ gspc # [ixic]))"
    using quote_body_example [of "JArr [?old, gspc, ixic]"] by simp
  have ok: "\<forall>r\<in>set ([?old] @ gspc # [ixic]). \<not> quote_faults ?rt r"
    by (simp add: quote_faults_gspc quote_faults_ixic)
       (simp add: quote_faults_def timestamp_fails_def nullish_def timestamp_value_def new_Date_def read_prop_def
          example_runtime_def)
  have post: "\<forall>p\<in>set [ixic]. matched_key p \<noteq> Some ''SP500''"
    by (simp add: matched_key_ixic)
  from last_duplicate_wins [OF b ok matched_key_gspc post] obtain quotes t where
    r: "fst (fetchIndexQuotes ?rt (JStr ''demo'')) = Inr (Some quotes)"
    and t: "timestamp_value ?rt gspc = Some t"
    and e: "map_of quotes ''SP500'' = Some (quote_entry gspc (isoFormat t))"
    by blast
  from t have "t = 1700000000" by (simp add: timestamp_value_gspc)
  with e have "map_of quotes ''SP500'' = Some (quote_entry gspc ''1970-01-20T16:13:20.000Z'')"
    by (simp add: isoFormat_scenario)
  with r show ?thesis by blast
qed

subsection \<open>The news phase\<close>

text \<open>
  C6, as stated, fails. The claim: no marker is appended to a text of 200 characters or
  fewer. The text \<^verbatim>\<open>hi\<close> has two, and its summary ends in the marker.
\<close>

theorem short_text_counterexample:
  "length ''hi'' \<le> 200 \<and>
   article_callback (example_runtime (answer (JArr [])) (answer (JArr [])))
     (sample_article ''Fed holds rates'' ''hi'') =
   Inr \<lparr> title = JStr ''Fed holds rates'', site = JStr ''example.com'',
         publishedAt = JUndefined, url = JUndefined, summary = ''hi...'' \<rparr>"
  by (simp add: article_callback_string [OF nullish_sample_article text_sample_article])
     (simp add: sample_article_def read_prop_def)

text \<open>
  C6, amended. For every raw news article (an element that is not \<^verbatim>\<open>null\<close>): when its
  text is a non-empty string, the summary is the first 200 characters of the text followed
  by the marker \<^verbatim>\<open>...\<close>, whatever the length of the text; when its text is the empty string
  or is absent, the summary is the empty string.
\<close>

theorem summary_of_text:
  assumes "\<not> nullish article"
  shows "(\<forall>s. read_prop article ''text'' = JStr s \<longrightarrow>
            (\<exists>item. article_callback rt article = Inr item \<and>
                    summary item = (if s = [] then [] else take 200 s @ ''...''))) \<and>
         (read_prop article ''text'' = JUndefined \<longrightarrow>
            (\<exists>item. article_callback rt article = Inr item \<and> summary item = []))"
  using assms by (simp add: article_callback_string article_callback_absent)

theorem summary_of_text_witness:
  "(\<exists>item. article_callback (example_runtime (answer (JArr [])) (answer (JArr [])))
             (sample_article ''Long'' (replicate 250 (CHR ''x''))) = Inr item \<and>
           summary item = replicate 200 (CHR ''x'') @ ''...'') \<and>
   (\<exists>item. article_callback (example_runtime (answer (JArr [])) (answer (JArr [])))
             (JObj [(''title'', JStr ''No text'')]) = Inr item \<and>
           summary item = [])"
proof -
  let ?rt = "example_runtime (answer (JArr [])) (answer (JArr []))"
  let ?bare = "JObj [(''title'', JStr ''No text'')] :: int jsval"
  have nn: "\<not> nullish ?bare" by (simp add: nullish_def)
  have u: "read_prop ?bare ''text'' = JUndefined" by (simp add: read_prop_def)
  have ne: "replicate 250 (CHR ''x'') \<noteq> []" by simp
  have nl: "\<not> nullish (sample_article ''Long'' (replicate 250 (CHR ''x'')))"
    by (rule nullish_sample_article)
  from summary_of_text [OF nl, of ?rt] summary_of_text [OF nn, of ?rt] u ne
  show ?thesis by (simp add: text_sample_article)
qed

text \<open>
  C7, as stated, fails. The claim gives every raw news array of more than 5 elements a
  normalized sequence of exactly 5. This array has 6 elements, the third of them \<^verbatim>\<open>null\<close>:
  reading its title throws, and \<^verbatim>\<open>fetchMarketNews\<close> returns \<^verbatim>\<open>null\<close>.
\<close>

theorem null_article_counterexample:
  "length [sample_article ''a'' ''one'', sample_article ''b'' ''two'', JNull, sample_article ''d'' ''four'',
           sample_article ''e'' ''five'', sample_article ''f'' ''six''] = 6 \<and>
   fst (fetchMarketNews
          (example_runtime (answer (JArr [gspc]))
             (answer (JArr [sample_article ''a'' ''one'', sample_article ''b'' ''two'', JNull,
                            sample_article ''d'' ''four'', sample_article ''e'' ''five'', sample_article ''f'' ''six''])))
          (JStr ''demo'')) = Inr None"
proof -
  let ?xs = "[sample_article ''a'' ''one'', sample_article ''b'' ''two'', JNull, sample_article ''d'' ''four'',
              sample_article ''e'' ''five'', sample_article ''f'' ''six'']"
  let ?rt = "example_runtime (answer (JArr [gspc])) (answer (JArr ?xs))"
  have "article_faults ?rt JNull" by (simp add: article_faults_def nullish_def)
  then have "isl (map_article ?rt (take 5 ?xs))"
    by (simp only: map_article_isl) simp
  then obtain e where "map_article ?rt (take 5 ?xs) = Inl e"
    by (auto simp only: isl_def)
  then have "news_of_data ?rt (JArr ?xs) = Inl e"
    by (simp add: news_of_data_def)
  then show ?thesis
    by (simp add: fetchMarketNews_body [OF news_body_example])
qed

text \<open>
  C7, amended. For every non-empty raw news array whose first five elements are
  articles the mapping does not throw on (none is \<^verbatim>\<open>null\<close>, and none has a truthy text that
  is not a string), \<^verbatim>\<open>fetchMarketNews\<close> returns the normalizations of the first five elements,
  or of all of them when there are fewer, in the order given: exactly 5 for an array of
  more than 5. Elements after the fifth are not looked at.
\<close>

theorem first_five_in_order:
  assumes "news_body rt apiKey = Some (JArr xs)" and "xs \<noteq> []"
    and "\<forall>a\<in>set (take 5 xs). \<not> article_faults rt a"
  shows "\<exists>items. fst (fetchMarketNews rt apiKey) = Inr (Some items) \<and>
           length items = min 5 (length xs) \<and>
           (\<forall>i<length items. article_callback rt (xs ! i) = Inr (items ! i))"
proof -
  from assms(3) have "\<not> isl (map_article rt (take 5 xs))"
    by (simp add: map_article_isl)
  then obtain items where m: "map_article rt (take 5 xs) = Inr items"
    by (cases "map_article rt (take 5 xs)") auto
  with assms(2) have "news_of_data rt (JArr xs) = Inr (Some items)"
    by (simp add: news_of_data_def)
  with assms(1) have r: "fst (fetchMarketNews rt apiKey) = Inr (Some items)"
    by (simp add: fetchMarketNews_body)
  from map_article_Inr [OF m] have
    l: "length items = min 5 (length xs)" and
    e: "\<forall>i<length (take 5 xs). article_callback rt (take 5 xs ! i) = Inr (items ! i)"
    by (simp_all add: min.commute)
  from e l have "\<forall>i<length items. article_callback rt (xs ! i) = Inr (items ! i)"
    by simp
  with r l show ?thesis by blast
qed

theorem first_five_in_order_witness:
  "\<exists>items.
     fst (fetchMarketNews
            (example_runtime (answer (JArr [gspc]))
               (answer (JArr [sample_article ''a'' ''one'', sample_article ''b'' ''two'', sample_article ''c'' ''three'',
                              sample_article ''d'' ''four'', sample_article ''e'' ''five'', JNull,
                              sample_article ''g'' ''seven''])))
            (JStr ''demo'')) = Inr (Some items) \<and>
     length items = 5"
proof -
  let ?xs = "[sample_article ''a'' ''one'', sample_article ''b'' ''two'', sample_article ''c'' ''three'',
              sample_article ''d'' ''four'', sample_article ''e'' ''five'', JNull, sample_article ''g'' ''seven'']"
  let ?rt = "example_runtime (answer (JArr [gspc])) (answer (JArr ?xs))"
  have b: "news_body ?rt (JStr ''demo'') = Some (JArr ?xs)"
    by (rule news_body_example)
  have ne: "?xs \<noteq> []" by simp
  have ok: "\<forall>a\<in>set (take 5 ?xs). \<not> article_faults ?rt a"
    by (simp add: article_faults_sample_article)
  from first_five_in_order [OF b ne ok] obtain items where
    "fst (fetchMarketNews ?rt (JStr ''demo'')) = Inr (Some items)" and
    "length items = min 5 (length ?xs)"
    by blast
  then have "fst (fetchMarketNews ?rt (JStr ''demo'')) = Inr (Some items) \<and> length items = 5"
    by simp
  then show ?thesis by blast
qed

end
